theory Spec2Isabelle
  imports Main "HOL-Library.Word"
begin

section \<open>The CDN upload service: data model\<close>

text \<open>
  The repository holds two copies of one Express application. The first,
  \<^verbatim>\<open>api/index.js\<close>, is the deployed server: it has the DELETE route, machine-readable
  error codes, an error-handling middleware and a catch-all 404 handler. The second
  (\<^verbatim>\<open>part_000\<close>, whose header comment also reads \<^verbatim>\<open>api/index.js\<close>) is an earlier
  copy with a 25MB limit, plain error messages, no DELETE route and no error middleware.
  Definitions of the first copy carry the plain names; those of the second end in
  \<open>_alt\<close>.

  Express, multer and Node are libraries, not code of the repository. The calls the
  handlers make into them (\<open>res.status\<close>, \<open>res.json\<close>, \<open>res.setHeader\<close>, \<open>res.send\<close>,
  \<open>upload.single\<close>, \<open>crypto.randomBytes\<close>, \<open>new Date()\<close>) are modelled by what they
  do to the response, the request and the store. \<open>res.setHeader\<close> throws when the value
  holds a character that Node refuses in a header; that is the one call in a handler's
  \<open>try\<close> block that can fail, so the \<open>catch\<close> clause of the file route is a branch of
  the model, and those of the other routes, where nothing throws, are not.

  A request is given by what the middleware in front of the handlers makes of it:
  \<^item> a request whose body \<open>express.json\<close> or \<open>express.urlencoded\<close> refuses (malformed
    JSON, a body over the parser's limit), whatever its route, with the error the parser
    raises;
  \<^item> a request for a route with \<open>:fileId\<close> whose path segment the router cannot decode
    (\<open>%zz\<close>), with the raw segment;
  \<^item> an upload whose body multer refuses apart from the checks of \<open>upload_single\<close>
    below (multipart without a boundary, a truncated form, too many file parts), with
    the error multer raises;
  \<^item> otherwise the route it matches, with the decoded id of the path where there is one
    (never empty), or with the headers and the file parts of the body for an upload.
  \<open>express.static\<close> of the second copy serves files of a directory and touches nothing
  else; it is left out. A \<open>string\<close> holds characters up to U+00FF; names with
  characters above that are outside the model.
\<close>

type_synonym byte = "8 word"

text \<open>JavaScript values as they are handed to \<open>res.json\<close> and \<open>res.setHeader\<close>.\<close>

datatype jsval =
    JBool bool
  | JNum nat
  | JStr string
  | JBuffer "byte list"
  | JArr "jsval list"
  | JObj "(string \<times> jsval) list"

text \<open>
  The record \<open>fileInfo\<close> built by the upload handler. \<open>uploadDate\<close> is an ISO string in
  \<^verbatim>\<open>api/index.js\<close> (\<open>new Date().toISOString()\<close>) and a \<open>Date\<close> object in the second
  copy (\<open>new Date()\<close>), which \<open>res.json\<close> serialises to the same ISO string.
\<close>

datatype date_value = IsoString string | DateObject string

record fileInfo =
  info_id :: string
  info_originalName :: string
  info_filename :: string
  info_mimetype :: string
  info_size :: nat
  info_uploadDate :: date_value
  info_buffer :: "byte list"
  info_url :: string

text \<open>One file part of a multipart body, and \<open>req.file\<close> as multer's memory storage fills it.\<close>

record part =
  part_fieldname :: string
  part_filename :: string
  part_mimetype :: string
  part_content :: "byte list"

record multer_file =
  file_originalname :: string
  file_mimetype :: string
  file_size :: nat
  file_buffer :: "byte list"

record req =
  req_headers :: "(string \<times> string) list"
  req_parts :: "part list"

text \<open>
  What a handler reads from the process while it serves one request: the bytes the
  system's random generator yields (the k-th byte it hands out), the clock as
  \<open>new Date()\<close> prints it in ISO form, whether the installed multer refuses a file
  of exactly \<open>fileSize\<close> bytes (1.4.5-lts and 2.x do, earlier versions accept it), and
  diagnostics.
\<close>

record env =
  random_source :: "nat \<Rightarrow> byte"
  now :: string
  multer_refuses_at_limit :: bool
  memoryUsage :: jsval
  NODE_ENV :: "string option"

datatype body = NoBody | Json jsval | Send "byte list" | DefaultPage

record response =
  status :: nat
  headers :: "(string \<times> jsval) list"
  body :: body

text \<open>
  Errors passed to \<open>next\<close> or thrown: multer's, with their code; those that carry an
  HTTP status (the body parsers' and the router's); any other, with its message.
\<close>

datatype error = MulterError string | HttpError nat string | Error string

datatype request =
    POST_upload req
  | GET_file string
  | GET_info string
  | GET_files
  | DELETE_file string
  | GET_health
  | GET_api
  | Unmatched
  | Body_refused error
  | Param_undecodable string
  | POST_upload_refused error

section \<open>The JavaScript \<open>Map\<close>\<close>

text \<open>
  \<open>fileDatabase\<close> is a \<open>Map\<close>: its entries are kept in the order in which their keys
  were first inserted. \<open>set\<close> on a key already present replaces the value where it
  stands; \<open>delete\<close> answers whether an entry was removed.
\<close>

type_synonym fileDatabase = "(string \<times> fileInfo) list"

fun Map_set :: "'k \<Rightarrow> 'v \<Rightarrow> ('k \<times> 'v) list \<Rightarrow> ('k \<times> 'v) list" where
  "Map_set k v [] = [(k, v)]"
| "Map_set k v (p # m) = (if fst p = k then (k, v) # m else p # Map_set k v m)"

definition Map_get :: "('k \<times> 'v) list \<Rightarrow> 'k \<Rightarrow> 'v option" where
  "Map_get m k = map_of m k"

definition Map_has :: "('k \<times> 'v) list \<Rightarrow> 'k \<Rightarrow> bool" where
  "Map_has m k = (k \<in> set (map fst m))"

definition Map_delete :: "'k \<Rightarrow> ('k \<times> 'v) list \<Rightarrow> bool \<times> ('k \<times> 'v) list" where
  "Map_delete k m = (Map_has m k, filter (\<lambda>p. fst p \<noteq> k) m)"

definition Map_values :: "('k \<times> 'v) list \<Rightarrow> 'v list" where
  "Map_values m = map snd m"

section \<open>Library calls\<close>

definition res0 :: response where
  "res0 = \<lparr>status = 200, headers = [], body = NoBody\<rparr>"

definition res_status :: "nat \<Rightarrow> response \<Rightarrow> response" where
  "res_status c res = res\<lparr>status := c\<rparr>"

text \<open>
  \<open>res.setHeader(name, value)\<close>. Node refuses a string value that holds a character
  other than TAB, U+0020 to U+007E and U+0080 to U+00FF, and throws \<open>ERR_INVALID_CHAR\<close>;
  the response is then as it was before the call. \<open>headers\<close> holds what the
  repository's code sets, not what Express adds when it sends the answer.
\<close>

definition header_char_ok :: "char \<Rightarrow> bool" where
  "header_char_ok c =
     (let n = (of_char c :: nat) in n = 9 \<or> (32 \<le> n \<and> n \<le> 126) \<or> 128 \<le> n)"

definition header_value_ok :: "jsval \<Rightarrow> bool" where
  "header_value_ok v = (case v of JStr s \<Rightarrow> list_all header_char_ok s | _ \<Rightarrow> True)"

definition set_header :: "string \<Rightarrow> jsval \<Rightarrow> response \<Rightarrow> response" where
  "set_header name v res = res\<lparr>headers := Map_set name v (headers res)\<rparr>"

definition res_setHeader :: "string \<Rightarrow> jsval \<Rightarrow> response \<Rightarrow> (error \<times> response) + response" where
  "res_setHeader name v res =
     (if header_value_ok v then Inr (set_header name v res)
      else Inl (Error (''Invalid character in header content ['' @ [CHR 0x22] @ name
                         @ [CHR 0x22] @ '']''), res))"

text \<open>
  Statements in a \<open>try\<close> block run one after the other until one throws; the \<open>catch\<close>
  clause then answers on the response as the statements before left it.
\<close>

definition and_then ::
  "(error \<times> response) + response \<Rightarrow> (response \<Rightarrow> (error \<times> response) + response)
     \<Rightarrow> (error \<times> response) + response" where
  "and_then m f = (case m of Inl thrown \<Rightarrow> Inl thrown | Inr res \<Rightarrow> f res)"

definition try_catch ::
  "(error \<times> response) + response \<Rightarrow> (error \<Rightarrow> response \<Rightarrow> response) \<Rightarrow> response" where
  "try_catch m handler = (case m of Inl thrown \<Rightarrow> handler (fst thrown) (snd thrown) | Inr res \<Rightarrow> res)"

definition error_message :: "error \<Rightarrow> string" where
  "error_message err = (case err of MulterError code \<Rightarrow> code | HttpError st msg \<Rightarrow> msg | Error msg \<Rightarrow> msg)"

definition res_json :: "jsval \<Rightarrow> response \<Rightarrow> response" where
  "res_json v res = res\<lparr>body := Json v\<rparr>"

definition res_send :: "byte list \<Rightarrow> response \<Rightarrow> response" where
  "res_send b res = res\<lparr>body := Send b\<rparr>"

text \<open>\<open>crypto.randomBytes(n)\<close>: the next \<open>n\<close> bytes of the random generator.\<close>

definition randomBytes :: "env \<Rightarrow> nat \<Rightarrow> byte list" where
  "randomBytes e n = map (random_source e) [0..<n]"

text \<open>\<open>Buffer.toString('hex')\<close>: two lower-case hexadecimal digits per byte.\<close>

definition hex_digit :: "nat \<Rightarrow> char" where
  "hex_digit n = ''0123456789abcdef'' ! n"

definition hex_byte :: "byte \<Rightarrow> string" where
  "hex_byte b = [hex_digit (unat b div 16), hex_digit (unat b mod 16)]"

definition toString_hex :: "byte list \<Rightarrow> string" where
  "toString_hex bs = concat (map hex_byte bs)"

text \<open>
  \<open>a || b\<close> on header values: \<open>undefined\<close> (a missing header) and the empty string are
  falsy. A template literal prints \<open>undefined\<close> as the word.
\<close>

definition js_or :: "string option \<Rightarrow> string option \<Rightarrow> string option" where
  "js_or a b = (case a of None \<Rightarrow> b | Some s \<Rightarrow> if s = [] then b else Some s)"

definition str_or :: "string \<Rightarrow> string \<Rightarrow> string" where
  "str_or a b = (if a = [] then b else a)"

definition template :: "string option \<Rightarrow> string" where
  "template a = (case a of None \<Rightarrow> ''undefined'' | Some s \<Rightarrow> s)"

definition header :: "req \<Rightarrow> string \<Rightarrow> string option" where
  "header rq name = map_of (req_headers rq) name"

text \<open>
  \<open>upload.single('file')\<close> over memory storage with a \<open>fileSize\<close> limit. \<open>req_parts\<close>
  lists the file parts of the body that have a filename, in the order they arrive; a
  part without one is dropped by multer. Dropped parts still count toward the limit of
  five files of \<^verbatim>\<open>api/index.js\<close>: a body in which a sixth file part arrives before
  multer has refused or finished the request is refused with \<open>LIMIT_FILE_COUNT\<close>, and
  is given as \<open>POST_upload_refused\<close> with that error. Among the parts with a filename
  the limit is never reached, since a second one is already refused.
  A part in another field, or a second part, is refused with \<open>LIMIT_UNEXPECTED_FILE\<close>; a
  part longer than the limit with \<open>LIMIT_FILE_SIZE\<close>, and so is one of exactly the limit
  when the installed multer is one that refuses it; an accepted part becomes \<open>req.file\<close>,
  whose \<open>size\<close> is the length of its buffer. With no file part (or a body that is not
  multipart) \<open>req.file\<close> stays undefined.
\<close>

fun upload_single :: "bool \<Rightarrow> nat \<Rightarrow> part list \<Rightarrow> error + multer_file option" where
  "upload_single at_limit fileSize [] = Inr None"
| "upload_single at_limit fileSize (p # ps) =
     (if part_fieldname p \<noteq> ''file'' then Inl (MulterError ''LIMIT_UNEXPECTED_FILE'')
      else if length (part_content p) > fileSize
              \<or> (at_limit \<and> length (part_content p) = fileSize)
           then Inl (MulterError ''LIMIT_FILE_SIZE'')
      else if ps \<noteq> [] then Inl (MulterError ''LIMIT_UNEXPECTED_FILE'')
      else Inr (Some \<lparr>file_originalname = part_filename p, file_mimetype = part_mimetype p,
                      file_size = length (part_content p), file_buffer = part_content p\<rparr>))"

text \<open>
  When no middleware answers, Express does: 404 for a request no route matches; for an
  error passed to \<open>next\<close>, the status the error carries if that is a 4xx or 5xx, and 500
  otherwise (a \<open>MulterError\<close> carries none).
\<close>

definition express_not_found :: "response \<Rightarrow> response" where
  "express_not_found res = res\<lparr>status := 404, body := DefaultPage\<rparr>"

definition express_error :: "error \<Rightarrow> response \<Rightarrow> response" where
  "express_error err res =
     res\<lparr>status := (case err of
                       HttpError st msg \<Rightarrow> if 400 \<le> st \<and> st < 600 then st else 500
                     | _ \<Rightarrow> 500),
         body := DefaultPage\<rparr>"

text \<open>The error the router raises when \<open>decodeURIComponent\<close> fails on a path segment.\<close>

definition decode_error :: "string \<Rightarrow> error" where
  "decode_error raw = HttpError 400 (''Failed to decode param '' @ [CHR 0x27] @ raw @ [CHR 0x27])"

section \<open>Property enumeration of a stored record\<close>

text \<open>
  The own properties of \<open>fileInfo\<close> in the order of the object literal, and the rest
  pattern \<open>const { buffer, ...rest } = fileInfo\<close>, which copies every property but the
  named one.
\<close>

definition date_json :: "date_value \<Rightarrow> jsval" where
  "date_json d = (case d of IsoString s \<Rightarrow> JStr s | DateObject s \<Rightarrow> JStr s)"

definition fileInfo_props :: "fileInfo \<Rightarrow> (string \<times> jsval) list" where
  "fileInfo_props fi =
     [(''id'', JStr (info_id fi)),
      (''originalName'', JStr (info_originalName fi)),
      (''filename'', JStr (info_filename fi)),
      (''mimetype'', JStr (info_mimetype fi)),
      (''size'', JNum (info_size fi)),
      (''uploadDate'', date_json (info_uploadDate fi)),
      (''buffer'', JBuffer (info_buffer fi)),
      (''url'', JStr (info_url fi))]"

definition rest_without :: "string \<Rightarrow> (string \<times> jsval) list \<Rightarrow> (string \<times> jsval) list" where
  "rest_without k props = filter (\<lambda>p. fst p \<noteq> k) props"

section \<open>\<^verbatim>\<open>api/index.js\<close>\<close>

text \<open>
  The CORS middleware sets three headers to constants, which \<open>setHeader\<close> accepts (lemma
  \<open>cors_values_ok\<close>), and calls \<open>next()\<close>.
\<close>

definition cors :: "response \<Rightarrow> response" where
  "cors res =
     set_header ''Access-Control-Allow-Headers'' (JStr ''Content-Type, Authorization'')
       (set_header ''Access-Control-Allow-Methods'' (JStr ''GET, POST, PUT, DELETE, OPTIONS'')
         (set_header ''Access-Control-Allow-Origin'' (JStr ''*'') res))"

definition maxFileSize :: nat where
  "maxFileSize = 20 * 1024 * 1024"

definition getBaseUrl :: "req \<Rightarrow> string" where
  "getBaseUrl rq =
     (let host = js_or (header rq ''x-forwarded-host'') (header rq ''host'');
          protocol = js_or (header rq ''x-forwarded-proto'') (Some ''https'')
      in template protocol @ ''://'' @ template host)"

definition make_fileInfo :: "env \<Rightarrow> req \<Rightarrow> multer_file \<Rightarrow> fileInfo" where
  "make_fileInfo e rq f =
     (let fileId = toString_hex (randomBytes e 16);
          baseUrl = getBaseUrl rq
      in \<lparr>info_id = fileId,
          info_originalName = str_or (file_originalname f) ''unknown'',
          info_filename = fileId,
          info_mimetype = str_or (file_mimetype f) ''application/octet-stream'',
          info_size = file_size f,
          info_uploadDate = IsoString (now e),
          info_buffer = file_buffer f,
          info_url = baseUrl @ ''/api/file/'' @ fileId\<rparr>)"

definition post_upload ::
  "env \<Rightarrow> req \<Rightarrow> multer_file option \<Rightarrow> response \<Rightarrow> fileDatabase \<Rightarrow> response \<times> fileDatabase" where
  "post_upload e rq req_file res db =
     (case req_file of
        None \<Rightarrow>
          (res_json (JObj [(''error'', JStr ''NO_FILE''),
                           (''message'', JStr ''Tidak ada file yang diupload'')])
             (res_status 400 res), db)
      | Some f \<Rightarrow>
          if file_size f > 20 * 1024 * 1024 then
            (res_json (JObj [(''error'', JStr ''FILE_TOO_LARGE''),
                             (''message'', JStr ''File terlalu besar. Maksimal 20MB'')])
               (res_status 400 res), db)
          else
            let fileInfo = make_fileInfo e rq f
            in (res_json (JObj [(''success'', JBool True),
                                (''message'', JStr ''File berhasil diupload''),
                                (''data'', JObj [(''id'', JStr (info_id fileInfo)),
                                                 (''originalName'', JStr (info_originalName fileInfo)),
                                                 (''mimetype'', JStr (info_mimetype fileInfo)),
                                                 (''size'', JNum (info_size fileInfo)),
                                                 (''url'', JStr (info_url fileInfo)),
                                                 (''uploadDate'', date_json (info_uploadDate fileInfo))])])
                  res,
                Map_set (info_id fileInfo) fileInfo db))"

definition get_file :: "string \<Rightarrow> response \<Rightarrow> fileDatabase \<Rightarrow> response" where
  "get_file fileId res db =
     try_catch
       (case Map_get db fileId of
          None \<Rightarrow>
            Inr (res_json (JObj [(''error'', JStr ''FILE_NOT_FOUND''),
                                 (''message'', JStr ''File tidak ditemukan'')])
                   (res_status 404 res))
        | Some fileInfo \<Rightarrow>
            and_then
              (and_then
                (and_then
                  (and_then
                    (and_then
                      (res_setHeader ''Content-Type'' (JStr (info_mimetype fileInfo)) res)
                      (res_setHeader ''Content-Length'' (JNum (info_size fileInfo))))
                    (res_setHeader ''Content-Disposition''
                       (JStr (''inline; filename='' @ [CHR 0x22] @ info_originalName fileInfo
                                @ [CHR 0x22]))))
                  (res_setHeader ''Cache-Control'' (JStr ''public, max-age=3600'')))
                (res_setHeader ''Access-Control-Expose-Headers''
                   (JStr ''Content-Type, Content-Length'')))
              (\<lambda>res. Inr (res_send (info_buffer fileInfo) res)))
       (\<lambda>error res.
          res_json (JObj [(''error'', JStr ''RETRIEVAL_FAILED''),
                          (''message'', JStr ''Gagal mengambil file'')])
            (res_status 500 res))"

definition get_info :: "string \<Rightarrow> response \<Rightarrow> fileDatabase \<Rightarrow> response" where
  "get_info fileId res db =
     (case Map_get db fileId of
        None \<Rightarrow>
          res_json (JObj [(''error'', JStr ''FILE_NOT_FOUND''),
                          (''message'', JStr ''File tidak ditemukan'')])
            (res_status 404 res)
      | Some fileInfo \<Rightarrow>
          let fileInfoWithoutBuffer = rest_without ''buffer'' (fileInfo_props fileInfo)
          in res_json (JObj [(''success'', JBool True),
                             (''data'', JObj fileInfoWithoutBuffer)]) res)"

definition get_files :: "response \<Rightarrow> fileDatabase \<Rightarrow> response" where
  "get_files res db =
     (let files = map (\<lambda>file. JObj (rest_without ''buffer'' (fileInfo_props file)))
                      (Map_values db)
      in res_json (JObj [(''success'', JBool True),
                         (''count'', JNum (length files)),
                         (''data'', JArr files)]) res)"

definition delete_file :: "string \<Rightarrow> response \<Rightarrow> fileDatabase \<Rightarrow> response \<times> fileDatabase" where
  "delete_file fileId res db =
     (let (deleted, db') = Map_delete fileId db
      in if deleted then
           (res_json (JObj [(''success'', JBool True),
                            (''message'', JStr ''File berhasil dihapus'')]) res, db')
         else
           (res_json (JObj [(''error'', JStr ''FILE_NOT_FOUND''),
                            (''message'', JStr ''File tidak ditemukan'')])
              (res_status 404 res), db'))"

definition get_health :: "env \<Rightarrow> response \<Rightarrow> response" where
  "get_health e res =
     res_json (JObj [(''status'', JStr ''OK''),
                     (''timestamp'', JStr (now e)),
                     (''platform'', JStr ''Vercel''),
                     (''memory'', memoryUsage e)]) res"

definition get_api :: "response \<Rightarrow> response" where
  "get_api res =
     res_json (JObj [(''message'', JStr ''CDN Backend API is running on Vercel!''),
                     (''endpoints'', JObj [(''upload'', JStr ''POST /api/upload''),
                                           (''getFile'', JStr ''GET /api/file/:id''),
                                           (''fileInfo'', JStr ''GET /api/info/:id''),
                                           (''listFiles'', JStr ''GET /api/files''),
                                           (''health'', JStr ''GET /api/health'')]),
                     (''limits'', JObj [(''maxFileSize'', JStr ''20MB''),
                                        (''maxFiles'', JStr ''5 per request'')])]) res"

definition error_middleware :: "error \<Rightarrow> response \<Rightarrow> response" where
  "error_middleware err res =
     (case err of
        MulterError code \<Rightarrow>
          if code = ''LIMIT_FILE_SIZE'' then
            res_json (JObj [(''error'', JStr ''FILE_TOO_LARGE''),
                            (''message'', JStr ''File terlalu besar'')])
              (res_status 400 res)
          else
            res_json (JObj [(''error'', JStr ''INTERNAL_SERVER_ERROR''),
                            (''message'', JStr ''Terjadi kesalahan internal'')])
              (res_status 500 res)
      | HttpError st msg \<Rightarrow>
          res_json (JObj [(''error'', JStr ''INTERNAL_SERVER_ERROR''),
                          (''message'', JStr ''Terjadi kesalahan internal'')])
            (res_status 500 res)
      | Error msg \<Rightarrow>
          res_json (JObj [(''error'', JStr ''INTERNAL_SERVER_ERROR''),
                          (''message'', JStr ''Terjadi kesalahan internal'')])
            (res_status 500 res))"

definition endpoint_not_found :: "response \<Rightarrow> response" where
  "endpoint_not_found res =
     res_json (JObj [(''error'', JStr ''ENDPOINT_NOT_FOUND''),
                     (''message'', JStr ''Endpoint tidak ditemukan'')])
       (res_status 404 res)"

text \<open>
  The application, in the order of its \<open>app.use\<close> calls: the body parsers, the CORS
  middleware, the route that matches, and for an error passed on by any of them the
  error middleware.
\<close>

fun app :: "env \<Rightarrow> request \<Rightarrow> fileDatabase \<Rightarrow> response \<times> fileDatabase" where
  "app e (POST_upload rq) db =
     (case upload_single (multer_refuses_at_limit e) maxFileSize (req_parts rq) of
        Inl err \<Rightarrow> (error_middleware err (cors res0), db)
      | Inr req_file \<Rightarrow> post_upload e rq req_file (cors res0) db)"
| "app e (GET_file fileId) db = (get_file fileId (cors res0) db, db)"
| "app e (GET_info fileId) db = (get_info fileId (cors res0) db, db)"
| "app e GET_files db = (get_files (cors res0) db, db)"
| "app e (DELETE_file fileId) db = delete_file fileId (cors res0) db"
| "app e GET_health db = (get_health e (cors res0), db)"
| "app e GET_api db = (get_api (cors res0), db)"
| "app e Unmatched db = (endpoint_not_found (cors res0), db)"
| "app e (Body_refused err) db = (error_middleware err res0, db)"
| "app e (Param_undecodable raw) db = (error_middleware (decode_error raw) (cors res0), db)"
| "app e (POST_upload_refused err) db = (error_middleware err (cors res0), db)"

section \<open>The second copy (\<^verbatim>\<open>part_000\<close>)\<close>

definition maxFileSize_alt :: nat where
  "maxFileSize_alt = 25 * 1024 * 1024"

definition generateFileUrl :: "req \<Rightarrow> string \<Rightarrow> string" where
  "generateFileUrl rq filename =
     (let protocol = js_or (header rq ''x-forwarded-proto'') (Some ''https'');
          host = js_or (header rq ''x-forwarded-host'') (header rq ''host'')
      in template protocol @ ''://'' @ template host @ ''/api/file/'' @ filename)"

definition make_fileInfo_alt :: "env \<Rightarrow> req \<Rightarrow> multer_file \<Rightarrow> fileInfo" where
  "make_fileInfo_alt e rq f =
     (let fileId = toString_hex (randomBytes e 16)
      in \<lparr>info_id = fileId,
          info_originalName = file_originalname f,
          info_filename = fileId,
          info_mimetype = file_mimetype f,
          info_size = file_size f,
          info_uploadDate = DateObject (now e),
          info_buffer = file_buffer f,
          info_url = generateFileUrl rq fileId\<rparr>)"

definition post_upload_alt ::
  "env \<Rightarrow> req \<Rightarrow> multer_file option \<Rightarrow> response \<Rightarrow> fileDatabase \<Rightarrow> response \<times> fileDatabase" where
  "post_upload_alt e rq req_file res db =
     (case req_file of
        None \<Rightarrow> (res_json (JObj [(''error'', JStr ''No file uploaded'')]) (res_status 400 res), db)
      | Some f \<Rightarrow>
          let fileInfo = make_fileInfo_alt e rq f
          in (res_json (JObj [(''success'', JBool True),
                              (''message'', JStr ''File uploaded successfully''),
                              (''data'', JObj (fileInfo_props fileInfo))]) res,
              Map_set (info_id fileInfo) fileInfo db))"

definition get_file_alt :: "string \<Rightarrow> response \<Rightarrow> fileDatabase \<Rightarrow> response" where
  "get_file_alt fileId res db =
     try_catch
       (case Map_get db fileId of
          None \<Rightarrow> Inr (res_json (JObj [(''error'', JStr ''File not found'')]) (res_status 404 res))
        | Some fileInfo \<Rightarrow>
            and_then
              (and_then
                (and_then
                  (and_then
                    (res_setHeader ''Content-Type'' (JStr (info_mimetype fileInfo)) res)
                    (res_setHeader ''Content-Disposition''
                       (JStr (''inline; filename='' @ [CHR 0x22] @ info_originalName fileInfo
                                @ [CHR 0x22]))))
                  (res_setHeader ''Cache-Control'' (JStr ''public, max-age=3600'')))
                (res_setHeader ''Access-Control-Allow-Origin'' (JStr ''*'')))
              (\<lambda>res. Inr (res_send (info_buffer fileInfo) res)))
       (\<lambda>error res.
          res_json (JObj [(''error'', JStr ''File retrieval failed''),
                          (''details'', JStr (error_message error))])
            (res_status 500 res))"

definition get_info_alt :: "string \<Rightarrow> response \<Rightarrow> fileDatabase \<Rightarrow> response" where
  "get_info_alt fileId res db =
     (case Map_get db fileId of
        None \<Rightarrow> res_json (JObj [(''error'', JStr ''File not found'')]) (res_status 404 res)
      | Some fileInfo \<Rightarrow>
          let fileInfoWithoutBuffer = rest_without ''buffer'' (fileInfo_props fileInfo)
          in res_json (JObj [(''success'', JBool True),
                             (''data'', JObj fileInfoWithoutBuffer)]) res)"

definition get_files_alt :: "response \<Rightarrow> fileDatabase \<Rightarrow> response" where
  "get_files_alt res db =
     (let files = map (\<lambda>file. JObj (rest_without ''buffer'' (fileInfo_props file)))
                      (Map_values db)
      in res_json (JObj [(''success'', JBool True), (''data'', JArr files)]) res)"

definition get_health_alt :: "env \<Rightarrow> response \<Rightarrow> fileDatabase \<Rightarrow> response" where
  "get_health_alt e res db =
     res_json (JObj ([(''status'', JStr ''OK''),
                      (''timestamp'', JStr (now e)),
                      (''filesCount'', JNum (length db))]
                     @ (case NODE_ENV e of None \<Rightarrow> [] | Some v \<Rightarrow> [(''environment'', JStr v)]))) res"

definition get_api_alt :: "response \<Rightarrow> response" where
  "get_api_alt res =
     res_json (JObj [(''message'', JStr ''CDN Backend API is running!''),
                     (''endpoints'', JObj [(''upload'', JStr ''POST /api/upload''),
                                           (''getFile'', JStr ''GET /api/file/:id''),
                                           (''fileInfo'', JStr ''GET /api/info/:id''),
                                           (''listFiles'', JStr ''GET /api/files''),
                                           (''health'', JStr ''GET /api/health'')])]) res"

text \<open>
  No DELETE route, no catch-all and no error middleware: Express answers those requests,
  and every error passed to \<open>next\<close>, itself.
\<close>

fun app_alt :: "env \<Rightarrow> request \<Rightarrow> fileDatabase \<Rightarrow> response \<times> fileDatabase" where
  "app_alt e (POST_upload rq) db =
     (case upload_single (multer_refuses_at_limit e) maxFileSize_alt (req_parts rq) of
        Inl err \<Rightarrow> (express_error err res0, db)
      | Inr req_file \<Rightarrow> post_upload_alt e rq req_file res0 db)"
| "app_alt e (GET_file fileId) db = (get_file_alt fileId res0 db, db)"
| "app_alt e (GET_info fileId) db = (get_info_alt fileId res0 db, db)"
| "app_alt e GET_files db = (get_files_alt res0 db, db)"
| "app_alt e (DELETE_file fileId) db = (express_not_found res0, db)"
| "app_alt e GET_health db = (get_health_alt e res0 db, db)"
| "app_alt e GET_api db = (get_api_alt res0, db)"
| "app_alt e Unmatched db = (express_not_found res0, db)"
| "app_alt e (Body_refused err) db = (express_error err res0, db)"
| "app_alt e (Param_undecodable raw) db = (express_error (decode_error raw) res0, db)"
| "app_alt e (POST_upload_refused err) db = (express_error err res0, db)"

section \<open>Reading a response\<close>

text \<open>
  A JSON answer exposes the payload when some object in it has a property \<open>buffer\<close> or
  some value in it is a buffer; an answer sent with \<open>res.send(buffer)\<close> is the payload.
\<close>

fun has_key :: "string \<Rightarrow> jsval \<Rightarrow> bool" where
  "has_key k (JArr vs) = (\<exists>v \<in> set vs. has_key k v)"
| "has_key k (JObj kvs) = (\<exists>p \<in> set kvs. fst p = k \<or> has_key k (snd p))"
| "has_key k v = False"

fun has_buffer :: "jsval \<Rightarrow> bool" where
  "has_buffer (JBuffer b) = True"
| "has_buffer (JArr vs) = (\<exists>v \<in> set vs. has_buffer v)"
| "has_buffer (JObj kvs) = (\<exists>p \<in> set kvs. has_buffer (snd p))"
| "has_buffer v = False"

definition exposes_payload :: "response \<Rightarrow> bool" where
  "exposes_payload r =
     (case body r of
        Json v \<Rightarrow> has_key ''buffer'' v \<or> has_buffer v
      | Send b \<Rightarrow> True
      | _ \<Rightarrow> False)"

definition json_field :: "string \<Rightarrow> jsval \<Rightarrow> jsval option" where
  "json_field k v = (case v of JObj kvs \<Rightarrow> map_of kvs k | _ \<Rightarrow> None)"

definition response_field :: "string \<Rightarrow> response \<Rightarrow> jsval option" where
  "response_field k r = (case body r of Json v \<Rightarrow> json_field k v | _ \<Rightarrow> None)"

definition response_id :: "response \<Rightarrow> string option" where
  "response_id r =
     (case response_field ''data'' r of
        Some d \<Rightarrow> (case json_field ''id'' d of Some (JStr i) \<Rightarrow> Some i | _ \<Rightarrow> None)
      | None \<Rightarrow> None)"

section \<open>An example upload\<close>

text \<open>
  A ten-byte file \<open>a.txt\<close> of type \<open>text/plain\<close>, sent to the host \<open>cdn.example\<close>;
  the random generator yields the bytes \<open>00, 11, 22, \<dots>, ff\<close>.
\<close>

definition example_env :: env where
  "example_env =
     \<lparr>random_source = (\<lambda>k. of_nat (17 * k)),
      now = ''2024-01-01T00:00:00.000Z'', multer_refuses_at_limit = True,
      memoryUsage = JObj [], NODE_ENV = None\<rparr>"

definition example_part :: part where
  "example_part =
     \<lparr>part_fieldname = ''file'', part_filename = ''a.txt'', part_mimetype = ''text/plain'',
      part_content = [1, 2, 3, 4, 5, 6, 7, 8, 9, 10]\<rparr>"

definition example_req :: req where
  "example_req = \<lparr>req_headers = [(''host'', ''cdn.example'')], req_parts = [example_part]\<rparr>"

definition example_id :: string where
  "example_id = ''00112233445566778899aabbccddeeff''"

definition example_db :: fileDatabase where
  "example_db = snd (app example_env (POST_upload example_req) [])"

definition example_db_alt :: fileDatabase where
  "example_db_alt = snd (app_alt example_env (POST_upload example_req) [])"

text \<open>The same upload, with a line feed in the file name.\<close>

definition newline_part :: part where
  "newline_part =
     \<lparr>part_fieldname = ''file'', part_filename = ''a'' @ [CHR 0x0A] @ ''b.txt'',
      part_mimetype = ''text/plain'', part_content = [1, 2, 3, 4, 5, 6, 7, 8, 9, 10]\<rparr>"

definition newline_req :: req where
  "newline_req = \<lparr>req_headers = [(''host'', ''cdn.example'')], req_parts = [newline_part]\<rparr>"

text \<open>The same file sent in the field \<open>avatar\<close>.\<close>

definition avatar_req :: req where
  "avatar_req =
     \<lparr>req_headers = [(''host'', ''cdn.example'')],
      req_parts = [example_part\<lparr>part_fieldname := ''avatar''\<rparr>]\<rparr>"

text \<open>
  A file of \<open>n\<close> zero bytes in the field \<open>file\<close>, and a request without any file part.
\<close>

definition big_part :: "nat \<Rightarrow> part" where
  "big_part n =
     \<lparr>part_fieldname = ''file'', part_filename = ''big.bin'',
      part_mimetype = ''application/octet-stream'', part_content = replicate n 0\<rparr>"

definition big_req :: "nat \<Rightarrow> req" where
  "big_req n = \<lparr>req_headers = [(''host'', ''cdn.example'')], req_parts = [big_part n]\<rparr>"

definition empty_req :: req where
  "empty_req = \<lparr>req_headers = [(''host'', ''cdn.example'')], req_parts = []\<rparr>"

section \<open>Invariants and runs\<close>

text \<open>Every stored record's \<open>size\<close> is the length of its \<open>buffer\<close>.\<close>

definition size_matches :: "fileDatabase \<Rightarrow> bool" where
  "size_matches db = (\<forall>p \<in> set db. info_size (snd p) = length (info_buffer (snd p)))"

text \<open>The store after a sequence of requests, each served in its own environment.\<close>

fun run :: "(env \<Rightarrow> request \<Rightarrow> fileDatabase \<Rightarrow> response \<times> fileDatabase)
              \<Rightarrow> (env \<times> request) list \<Rightarrow> fileDatabase \<Rightarrow> fileDatabase" where
  "run step [] db = db"
| "run step (ev # evs) db = run step evs (snd (step (fst ev) (snd ev) db))"

text \<open>A second environment, whose random generator yields \<open>ff, ee, \<dots>, 00\<close>.\<close>

definition other_env :: env where
  "other_env =
     \<lparr>random_source = (\<lambda>k. of_nat (255 - 17 * k)),
      now = ''2024-01-02T00:00:00.000Z'', multer_refuses_at_limit = False,
      memoryUsage = JObj [], NODE_ENV = Some ''production''\<rparr>"

definition other_id :: string where
  "other_id = ''ffeeddccbbaa99887766554433221100''"

section \<open>Listing order\<close>

text \<open>
  What a client sees of a run: each request with its answer. \<open>fresh_ids\<close> says that no
  upload of the run returned an id that was in the store when it was served.
\<close>

fun observe :: "(env \<Rightarrow> request \<Rightarrow> fileDatabase \<Rightarrow> response \<times> fileDatabase)
                  \<Rightarrow> (env \<times> request) list \<Rightarrow> fileDatabase \<Rightarrow> (request \<times> response) list" where
  "observe step [] db = []"
| "observe step (ev # evs) db =
     (snd ev, fst (step (fst ev) (snd ev) db)) # observe step evs (snd (step (fst ev) (snd ev) db))"

fun fresh_ids :: "(env \<Rightarrow> request \<Rightarrow> fileDatabase \<Rightarrow> response \<times> fileDatabase)
                  \<Rightarrow> (env \<times> request) list \<Rightarrow> fileDatabase \<Rightarrow> bool" where
  "fresh_ids step [] db = True"
| "fresh_ids step (ev # evs) db =
     ((case snd ev of
         POST_upload q \<Rightarrow>
           (case response_id (fst (step (fst ev) (snd ev) db)) of
              Some i \<Rightarrow> \<not> Map_has db i
            | None \<Rightarrow> True)
       | _ \<Rightarrow> True)
      \<and> fresh_ids step evs (snd (step (fst ev) (snd ev) db)))"

text \<open>
  The ids of the surviving records in the order of their insertion, as the transcript
  tells it: an upload that returns an id inserts a record under it, after any record that
  had that id is gone; a delete answered with 200 removes the record of its id.
\<close>

fun surviving_ids :: "(request \<times> response) list \<Rightarrow> string list \<Rightarrow> string list" where
  "surviving_ids [] ids = ids"
| "surviving_ids ((POST_upload q, r) # t) ids =
     surviving_ids t (case response_id r of
                        Some i \<Rightarrow> filter (\<lambda>j. j \<noteq> i) ids @ [i]
                      | None \<Rightarrow> ids)"
| "surviving_ids ((DELETE_file i, r) # t) ids =
     surviving_ids t (if status r = 200 then filter (\<lambda>j. j \<noteq> i) ids else ids)"
| "surviving_ids (x # t) ids = surviving_ids t ids"

text \<open>The ids of the summaries in the answer of \<open>GET /files\<close>, in the order listed.\<close>

definition listed_ids :: "response \<Rightarrow> string list" where
  "listed_ids r =
     (case response_field ''data'' r of
        Some (JArr vs) \<Rightarrow>
          map (\<lambda>v. case json_field ''id'' v of Some (JStr i) \<Rightarrow> i | _ \<Rightarrow> []) vs
      | _ \<Rightarrow> [])"

text \<open>Every record is stored under its own id.\<close>

definition keys_are_ids :: "fileDatabase \<Rightarrow> bool" where
  "keys_are_ids db = (\<forall>p \<in> set db. info_id (snd p) = fst p)"

text \<open>
  Two runs. In the first the id of the first upload is deleted and then drawn again; in
  the second it is drawn again while its record is still in the store.
\<close>

definition example_events :: "(env \<times> request) list" where
  "example_events =
     [(example_env, POST_upload example_req),
      (other_env, POST_upload (big_req 2)),
      (example_env, DELETE_file example_id),
      (example_env, POST_upload (big_req 3))]"

definition collision_events :: "(env \<times> request) list" where
  "collision_events =
     [(example_env, POST_upload example_req),
      (other_env, POST_upload (big_req 2)),
      (example_env, POST_upload (big_req 3))]"

section \<open>Basic facts\<close>

lemmas res_defs = res0_def res_status_def set_header_def res_json_def res_send_def cors_def
  express_not_found_def express_error_def

lemmas read_defs = response_field_def json_field_def response_id_def

lemmas try_defs = res_setHeader_def and_then_def try_catch_def

lemma cors_values_ok:
  "header_value_ok (JStr ''*'')"
  "header_value_ok (JStr ''GET, POST, PUT, DELETE, OPTIONS'')"
  "header_value_ok (JStr ''Content-Type, Authorization'')"
  by (simp_all add: header_value_ok_def header_char_ok_def)

lemma Map_get_set: "Map_get (Map_set k v m) k = Some v"
  by (induction m) (auto simp: Map_get_def)

lemma post_upload_id:
  assumes "post_upload e rq rf res db = (r, db')" and "response_id r = Some i"
  shows "\<exists>f. rf = Some f \<and> file_size f \<le> 20 * 1024 * 1024
             \<and> i = info_id (make_fileInfo e rq f)
             \<and> db' = Map_set i (make_fileInfo e rq f) db"
  using assms
  by (auto simp: post_upload_def Let_def res_defs read_defs split: option.splits if_splits)

lemma post_upload_alt_id:
  assumes "post_upload_alt e rq rf res db = (r, db')" and "response_id r = Some i"
  shows "\<exists>f. rf = Some f \<and> i = info_id (make_fileInfo_alt e rq f)
             \<and> db' = Map_set i (make_fileInfo_alt e rq f) db"
  using assms
  by (auto simp: post_upload_alt_def Let_def res_defs read_defs fileInfo_props_def split: option.splits if_splits)

lemma upload_single_Some:
  "upload_single b lim ps = Inr (Some f) \<Longrightarrow>
     \<exists>p. ps = [p] \<and> part_fieldname p = ''file'' \<and> length (part_content p) \<le> lim
         \<and> file_buffer f = part_content p \<and> file_size f = length (part_content p)
         \<and> file_originalname f = part_filename p \<and> file_mimetype f = part_mimetype p"
  by (cases ps) (auto split: if_splits)

lemma error_middleware_no_id: "response_id (error_middleware err res) = None"
  by (auto simp: error_middleware_def res_defs read_defs split: error.splits)

lemma express_error_no_id: "response_id (express_error err res) = None"
  by (auto simp: res_defs read_defs)

lemma app_upload_id:
  assumes "app e (POST_upload rq) db = (r, db')" and "response_id r = Some i"
  shows "\<exists>p f. req_parts rq = [p]
           \<and> upload_single (multer_refuses_at_limit e) maxFileSize (req_parts rq) = Inr (Some f)
           \<and> file_buffer f = part_content p \<and> file_size f = length (part_content p)
           \<and> file_originalname f = part_filename p \<and> file_mimetype f = part_mimetype p
           \<and> i = info_id (make_fileInfo e rq f)
           \<and> db' = Map_set i (make_fileInfo e rq f) db"
proof (cases "upload_single (multer_refuses_at_limit e) maxFileSize (req_parts rq)")
  case (Inl err)
  with assms show ?thesis by (auto simp: error_middleware_no_id)
next
  case (Inr rf)
  with assms have "post_upload e rq rf (cors res0) db = (r, db')" by simp
  from post_upload_id [OF this assms(2)] obtain f where
    f: "rf = Some f" "i = info_id (make_fileInfo e rq f)" "db' = Map_set i (make_fileInfo e rq f) db"
    by blast
  from Inr f(1) upload_single_Some obtain p where
    "req_parts rq = [p]" "file_buffer f = part_content p" "file_size f = length (part_content p)"
    "file_originalname f = part_filename p" "file_mimetype f = part_mimetype p"
    by blast
  with f Inr show ?thesis by auto
qed

lemma app_alt_upload_id:
  assumes "app_alt e (POST_upload rq) db = (r, db')" and "response_id r = Some i"
  shows "\<exists>p f. req_parts rq = [p]
           \<and> upload_single (multer_refuses_at_limit e) maxFileSize_alt (req_parts rq) = Inr (Some f)
           \<and> file_buffer f = part_content p \<and> file_size f = length (part_content p)
           \<and> file_originalname f = part_filename p \<and> file_mimetype f = part_mimetype p
           \<and> i = info_id (make_fileInfo_alt e rq f)
           \<and> db' = Map_set i (make_fileInfo_alt e rq f) db"
proof (cases "upload_single (multer_refuses_at_limit e) maxFileSize_alt (req_parts rq)")
  case (Inl err)
  with assms show ?thesis by (auto simp: express_error_no_id)
next
  case (Inr rf)
  with assms have "post_upload_alt e rq rf res0 db = (r, db')" by simp
  from post_upload_alt_id [OF this assms(2)] obtain f where
    f: "rf = Some f" "i = info_id (make_fileInfo_alt e rq f)"
       "db' = Map_set i (make_fileInfo_alt e rq f) db"
    by blast
  from Inr f(1) upload_single_Some obtain p where
    "req_parts rq = [p]" "file_buffer f = part_content p" "file_size f = length (part_content p)"
    "file_originalname f = part_filename p" "file_mimetype f = part_mimetype p"
    by blast
  with f Inr show ?thesis by auto
qed

lemma get_file_present:
  assumes "Map_get db i = Some fi"
    and "header_value_ok (JStr (info_mimetype fi))"
    and "header_value_ok (JStr (''inline; filename='' @ [CHR 0x22] @ info_originalName fi @ [CHR 0x22]))"
  shows "status (get_file i (cors res0) db) = 200"
    and "body (get_file i (cors res0) db) = Send (info_buffer fi)"
    and "map_of (headers (get_file i (cors res0) db)) ''Content-Length'' = Some (JNum (info_size fi))"
  using assms
  by (simp_all add: get_file_def try_defs res_defs header_value_ok_def header_char_ok_def)

lemma get_file_alt_present:
  assumes "Map_get db i = Some fi"
    and "header_value_ok (JStr (info_mimetype fi))"
    and "header_value_ok (JStr (''inline; filename='' @ [CHR 0x22] @ info_originalName fi @ [CHR 0x22]))"
  shows "status (get_file_alt i res0 db) = 200"
    and "body (get_file_alt i res0 db) = Send (info_buffer fi)"
  using assms
  by (simp_all add: get_file_alt_def try_defs res_defs header_value_ok_def header_char_ok_def)

lemma get_file_throws:
  assumes "Map_get db i = Some fi"
    and "header_value_ok (JStr (info_mimetype fi))"
    and "\<not> header_value_ok (JStr (''inline; filename='' @ [CHR 0x22] @ info_originalName fi @ [CHR 0x22]))"
  shows "status (get_file i res db) = 500"
    and "body (get_file i res db)
           = Json (JObj [(''error'', JStr ''RETRIEVAL_FAILED''),
                         (''message'', JStr ''Gagal mengambil file'')])"
    and "status (get_file_alt i res db) = 500"
    and "response_field ''error'' (get_file_alt i res db) = Some (JStr ''File retrieval failed'')"
  using assms
  by (simp_all add: get_file_def get_file_alt_def try_defs res_defs read_defs
      header_value_ok_def header_char_ok_def)

section \<open>Upload, then fetch\<close>

text \<open>
  When the stored type and the \<open>Content-Disposition\<close> line built from the stored name
  are values \<open>setHeader\<close> accepts, the fetch returns what the upload stored: an upload
  that answers with an id carried exactly one file part, and \<open>GET /file/:id\<close> with that
  id on the resulting store answers 200 with exactly the bytes of that part, in both
  copies.
\<close>

lemma fetch_returns_upload:
  assumes "app e (POST_upload rq) db = (r, db')" and "response_id r = Some i"
  shows "\<exists>p. req_parts rq = [p]
          \<and> (header_value_ok (JStr (str_or (part_mimetype p) ''application/octet-stream''))
             \<and> header_value_ok (JStr (''inline; filename='' @ [CHR 0x22]
                                        @ str_or (part_filename p) ''unknown'' @ [CHR 0x22]))
             \<longrightarrow> status (fst (app e' (GET_file i) db')) = 200
                 \<and> body (fst (app e' (GET_file i) db')) = Send (part_content p)
                 \<and> map_of (headers (fst (app e' (GET_file i) db'))) ''Content-Length''
                     = Some (JNum (length (part_content p))))"
proof -
  from assms obtain p f where pf: "req_parts rq = [p]" "file_buffer f = part_content p"
      "file_size f = length (part_content p)" "file_originalname f = part_filename p"
      "file_mimetype f = part_mimetype p" "db' = Map_set i (make_fileInfo e rq f) db"
    using app_upload_id by blast
  have stored: "Map_get db' i = Some (make_fileInfo e rq f)" by (simp add: pf(6) Map_get_set)
  have fields: "info_mimetype (make_fileInfo e rq f) = str_or (part_mimetype p) ''application/octet-stream''"
    "info_originalName (make_fileInfo e rq f) = str_or (part_filename p) ''unknown''"
    "info_buffer (make_fileInfo e rq f) = part_content p"
    "info_size (make_fileInfo e rq f) = length (part_content p)"
    by (simp_all add: make_fileInfo_def Let_def pf)
  show ?thesis
    using get_file_present [OF stored] pf(1) by (auto simp: fields)
qed

lemma fetch_returns_upload_alt:
  assumes "app_alt e (POST_upload rq) db = (r, db')" and "response_id r = Some i"
  shows "\<exists>p. req_parts rq = [p]
          \<and> (header_value_ok (JStr (part_mimetype p))
             \<and> header_value_ok (JStr (''inline; filename='' @ [CHR 0x22]
                                        @ part_filename p @ [CHR 0x22]))
             \<longrightarrow> status (fst (app_alt e' (GET_file i) db')) = 200
                 \<and> body (fst (app_alt e' (GET_file i) db')) = Send (part_content p))"
proof -
  from assms obtain p f where pf: "req_parts rq = [p]" "file_buffer f = part_content p"
      "file_size f = length (part_content p)" "file_originalname f = part_filename p"
      "file_mimetype f = part_mimetype p" "db' = Map_set i (make_fileInfo_alt e rq f) db"
    using app_alt_upload_id by blast
  have stored: "Map_get db' i = Some (make_fileInfo_alt e rq f)" by (simp add: pf(6) Map_get_set)
  have fields: "info_mimetype (make_fileInfo_alt e rq f) = part_mimetype p"
    "info_originalName (make_fileInfo_alt e rq f) = part_filename p"
    "info_buffer (make_fileInfo_alt e rq f) = part_content p"
    by (simp_all add: make_fileInfo_alt_def Let_def pf)
  show ?thesis
    using get_file_alt_present [OF stored] pf(1) by (auto simp: fields)
qed

lemma upt_16: "[0..<16] = [0, 1, 2, 3, 4, 5, 6, 7, 8, 9, 10, 11, 12, 13, 14, 15]"
  by (simp add: upt_rec)

lemma example_random_bytes:
  "randomBytes example_env 16
     = [0x00, 0x11, 0x22, 0x33, 0x44, 0x55, 0x66, 0x77,
        0x88, 0x99, 0xaa, 0xbb, 0xcc, 0xdd, 0xee, 0xff]"
  by (simp add: randomBytes_def example_env_def upt_16)

lemma example_random_hex: "toString_hex (randomBytes example_env 16) = example_id"
  by (simp add: example_random_bytes example_id_def toString_hex_def hex_byte_def hex_digit_def)

lemma example_upload_single:
  "upload_single b maxFileSize (req_parts example_req)
     = Inr (Some \<lparr>file_originalname = ''a.txt'', file_mimetype = ''text/plain'', file_size = 10,
                   file_buffer = [1, 2, 3, 4, 5, 6, 7, 8, 9, 10]\<rparr>)"
  "upload_single b maxFileSize_alt (req_parts example_req)
     = Inr (Some \<lparr>file_originalname = ''a.txt'', file_mimetype = ''text/plain'', file_size = 10,
                   file_buffer = [1, 2, 3, 4, 5, 6, 7, 8, 9, 10]\<rparr>)"
  by (simp_all add: example_req_def example_part_def maxFileSize_def maxFileSize_alt_def)

lemma example_db_eq:
  "example_db =
     [(example_id,
       \<lparr>info_id = example_id, info_originalName = ''a.txt'', info_filename = example_id,
        info_mimetype = ''text/plain'', info_size = 10,
        info_uploadDate = IsoString ''2024-01-01T00:00:00.000Z'',
        info_buffer = [1, 2, 3, 4, 5, 6, 7, 8, 9, 10],
        info_url = ''https://cdn.example/api/file/'' @ example_id\<rparr>)]"
  by (simp add: example_db_def example_upload_single post_upload_def make_fileInfo_def
      example_random_hex Let_def str_or_def getBaseUrl_def js_or_def header_def template_def)
    (simp add: example_req_def example_env_def)

lemma example_db_alt_eq:
  "example_db_alt =
     [(example_id,
       \<lparr>info_id = example_id, info_originalName = ''a.txt'', info_filename = example_id,
        info_mimetype = ''text/plain'', info_size = 10,
        info_uploadDate = DateObject ''2024-01-01T00:00:00.000Z'',
        info_buffer = [1, 2, 3, 4, 5, 6, 7, 8, 9, 10],
        info_url = ''https://cdn.example/api/file/'' @ example_id\<rparr>)]"
  by (simp add: example_db_alt_def example_upload_single post_upload_alt_def make_fileInfo_alt_def
      example_random_hex Let_def generateFileUrl_def js_or_def header_def template_def)
    (simp add: example_req_def example_env_def)

lemma example_upload_id:
  "response_id (fst (app example_env (POST_upload example_req) [])) = Some example_id"
  "response_id (fst (app_alt example_env (POST_upload example_req) [])) = Some example_id"
  by (simp_all add: example_upload_single post_upload_def post_upload_alt_def make_fileInfo_def
      make_fileInfo_alt_def example_random_hex Let_def res_defs read_defs fileInfo_props_def)

lemma example_fetch:
  "body (fst (app example_env (GET_file example_id) example_db))
     = Send [1, 2, 3, 4, 5, 6, 7, 8, 9, 10]"
  "body (fst (app_alt example_env (GET_file example_id) example_db_alt))
     = Send [1, 2, 3, 4, 5, 6, 7, 8, 9, 10]"
  by (simp_all add: example_db_eq example_db_alt_eq Map_get_def get_file_def get_file_alt_def
      try_defs res_defs header_value_ok_def header_char_ok_def)

lemma newline_upload_single:
  "upload_single b maxFileSize (req_parts newline_req)
     = Inr (Some \<lparr>file_originalname = ''a'' @ [CHR 0x0A] @ ''b.txt'', file_mimetype = ''text/plain'',
                   file_size = 10, file_buffer = [1, 2, 3, 4, 5, 6, 7, 8, 9, 10]\<rparr>)"
  "upload_single b maxFileSize_alt (req_parts newline_req)
     = Inr (Some \<lparr>file_originalname = ''a'' @ [CHR 0x0A] @ ''b.txt'', file_mimetype = ''text/plain'',
                   file_size = 10, file_buffer = [1, 2, 3, 4, 5, 6, 7, 8, 9, 10]\<rparr>)"
  by (simp_all add: newline_req_def newline_part_def maxFileSize_def maxFileSize_alt_def)

lemma newline_stored:
  "Map_get (snd (app example_env (POST_upload newline_req) [])) example_id
     = Some (make_fileInfo example_env newline_req
               \<lparr>file_originalname = ''a'' @ [CHR 0x0A] @ ''b.txt'', file_mimetype = ''text/plain'',
                file_size = 10, file_buffer = [1, 2, 3, 4, 5, 6, 7, 8, 9, 10]\<rparr>)"
  "Map_get (snd (app_alt example_env (POST_upload newline_req) [])) example_id
     = Some (make_fileInfo_alt example_env newline_req
               \<lparr>file_originalname = ''a'' @ [CHR 0x0A] @ ''b.txt'', file_mimetype = ''text/plain'',
                file_size = 10, file_buffer = [1, 2, 3, 4, 5, 6, 7, 8, 9, 10]\<rparr>)"
  by (simp_all add: newline_upload_single post_upload_def post_upload_alt_def Let_def Map_get_def)
    (simp_all add: make_fileInfo_def make_fileInfo_alt_def example_random_hex Let_def)

text \<open>
  Claim C1. Fetching an uploaded file by the returned id should return its bytes. Both
  copies build the \<open>Content-Disposition\<close> header from the client's file name as it came.
  For the ten-byte upload named \<open>a\<close>, line feed, \<open>b.txt\<close>, the upload answers 200 with an
  id and stores the bytes, and \<open>res.setHeader\<close> then throws in every fetch of that id:
  \<^verbatim>\<open>api/index.js\<close> answers 500 \<open>RETRIEVAL_FAILED\<close>, the second copy 500
  \<open>File retrieval failed\<close>, and neither sends the bytes.
\<close>

theorem fetch_fails_on_newline_in_filename:
  "status (fst (app example_env (POST_upload newline_req) [])) = 200
   \<and> response_id (fst (app example_env (POST_upload newline_req) [])) = Some example_id
   \<and> status (fst (app example_env (GET_file example_id)
                 (snd (app example_env (POST_upload newline_req) [])))) = 500
   \<and> body (fst (app example_env (GET_file example_id)
               (snd (app example_env (POST_upload newline_req) []))))
       = Json (JObj [(''error'', JStr ''RETRIEVAL_FAILED''),
                     (''message'', JStr ''Gagal mengambil file'')])
   \<and> status (fst (app_alt example_env (POST_upload newline_req) [])) = 200
   \<and> response_id (fst (app_alt example_env (POST_upload newline_req) [])) = Some example_id
   \<and> status (fst (app_alt example_env (GET_file example_id)
                 (snd (app_alt example_env (POST_upload newline_req) [])))) = 500
   \<and> response_field ''error'' (fst (app_alt example_env (GET_file example_id)
                 (snd (app_alt example_env (POST_upload newline_req) []))))
       = Some (JStr ''File retrieval failed'')"
proof -
  let ?f = "\<lparr>file_originalname = ''a'' @ [CHR 0x0A] @ ''b.txt'', file_mimetype = ''text/plain'',
             file_size = 10, file_buffer = [1, 2, 3, 4, 5, 6, 7, 8, 9, 10]\<rparr>"
  have up: "status (fst (app example_env (POST_upload newline_req) [])) = 200"
    "response_id (fst (app example_env (POST_upload newline_req) [])) = Some example_id"
    "status (fst (app_alt example_env (POST_upload newline_req) [])) = 200"
    "response_id (fst (app_alt example_env (POST_upload newline_req) [])) = Some example_id"
    by (simp_all add: newline_upload_single post_upload_def post_upload_alt_def make_fileInfo_def
        make_fileInfo_alt_def example_random_hex Let_def res_defs read_defs fileInfo_props_def)
  have type_ok: "header_value_ok (JStr (info_mimetype (make_fileInfo example_env newline_req ?f)))"
    "header_value_ok (JStr (info_mimetype (make_fileInfo_alt example_env newline_req ?f)))"
    by (simp_all add: make_fileInfo_def make_fileInfo_alt_def Let_def str_or_def
        header_value_ok_def header_char_ok_def)
  have name_bad: "\<not> header_value_ok (JStr (''inline; filename='' @ [CHR 0x22]
        @ info_originalName (make_fileInfo example_env newline_req ?f) @ [CHR 0x22]))"
    "\<not> header_value_ok (JStr (''inline; filename='' @ [CHR 0x22]
        @ info_originalName (make_fileInfo_alt example_env newline_req ?f) @ [CHR 0x22]))"
    by (simp_all add: make_fileInfo_def make_fileInfo_alt_def Let_def str_or_def
        header_value_ok_def header_char_ok_def)
  from get_file_throws(1,2) [OF newline_stored(1) type_ok(1) name_bad(1)]
    get_file_throws(3,4) [OF newline_stored(2) type_ok(2) name_bad(2)] up
  show ?thesis by simp
qed

section \<open>Summaries carry no payload\<close>

lemma summary_hides_payload:
  "\<not> has_key ''buffer'' (JObj (rest_without ''buffer'' (fileInfo_props fi)))"
  "\<not> has_buffer (JObj (rest_without ''buffer'' (fileInfo_props fi)))"
  by (simp_all add: rest_without_def fileInfo_props_def date_json_def split: date_value.splits)

lemma get_info_hides_payload:
  "\<not> exposes_payload (get_info i res db)" "\<not> exposes_payload (get_info_alt i res db)"
  using summary_hides_payload
  by (auto simp: exposes_payload_def get_info_def get_info_alt_def res_defs Let_def
      split: option.splits)

lemma get_files_hides_payload:
  "\<not> exposes_payload (get_files res db)" "\<not> exposes_payload (get_files_alt res db)"
  using summary_hides_payload
  by (auto simp: exposes_payload_def get_files_def get_files_alt_def res_defs Let_def)

text \<open>
  Claim C2. For every store and every id, the JSON answers of \<open>GET /info/:id\<close> and of
  \<open>GET /files\<close> contain no property named \<open>buffer\<close> and no buffer value, at any
  depth, in both copies of the server.
\<close>

theorem info_and_files_hide_payload:
  "\<not> exposes_payload (fst (app e (GET_info i) db))
   \<and> \<not> exposes_payload (fst (app e GET_files db))
   \<and> \<not> exposes_payload (fst (app_alt e (GET_info i) db))
   \<and> \<not> exposes_payload (fst (app_alt e GET_files db))"
  by (simp add: get_info_hides_payload get_files_hides_payload)

theorem info_and_files_hide_payload_witness:
  "Map_get example_db example_id \<noteq> None
   \<and> status (fst (app example_env (GET_info example_id) example_db)) = 200
   \<and> \<not> exposes_payload (fst (app example_env (GET_info example_id) example_db))
   \<and> \<not> exposes_payload (fst (app example_env GET_files example_db))
   \<and> \<not> exposes_payload (fst (app_alt example_env (GET_info example_id) example_db_alt))
   \<and> \<not> exposes_payload (fst (app_alt example_env GET_files example_db_alt))"
  using info_and_files_hide_payload [of example_env example_id example_db]
    info_and_files_hide_payload [of example_env example_id example_db_alt]
  by (simp add: example_db_eq Map_get_def get_info_def res_defs Let_def)

lemma post_upload_hides_payload: "\<not> exposes_payload (fst (post_upload e rq rf res db))"
  by (simp add: post_upload_def exposes_payload_def res_defs Let_def date_json_def
      split: option.splits date_value.splits)

text \<open>
  Claim C3. The 200 answer of \<open>POST /upload\<close> should be a summary without the payload.
  \<^verbatim>\<open>api/index.js\<close> builds the summary field by field (lemma \<open>post_upload_hides_payload\<close>).
  The second copy answers with \<open>data: fileInfo\<close>, the stored record itself: on the
  ten-byte example upload its answer carries the property \<open>buffer\<close> holding the ten
  bytes, while the same upload to \<^verbatim>\<open>api/index.js\<close> does not.
\<close>

theorem upload_alt_response_exposes_buffer:
  "status (fst (app_alt example_env (POST_upload example_req) [])) = 200
   \<and> exposes_payload (fst (app_alt example_env (POST_upload example_req) []))
   \<and> (case response_field ''data'' (fst (app_alt example_env (POST_upload example_req) [])) of
        Some d \<Rightarrow> json_field ''buffer'' d = Some (JBuffer [1, 2, 3, 4, 5, 6, 7, 8, 9, 10])
      | None \<Rightarrow> False)
   \<and> \<not> exposes_payload (fst (app example_env (POST_upload example_req) []))"
  by (simp add: example_upload_single post_upload_alt_def post_upload_def make_fileInfo_alt_def
      make_fileInfo_def Let_def res_defs read_defs fileInfo_props_def exposes_payload_def
      date_json_def)

section \<open>Lookups and deletion\<close>

lemma Map_get_None_iff: "Map_get db i = None \<longleftrightarrow> \<not> Map_has db i"
  by (simp add: Map_get_def Map_has_def map_of_eq_None_iff)

lemma Map_get_filter_self: "Map_get (filter (\<lambda>p. fst p \<noteq> i) db) i = None"
  by (induction db) (auto simp: Map_get_def)

lemma filter_absent: "\<not> Map_has db i \<Longrightarrow> filter (\<lambda>p. fst p \<noteq> i) db = db"
  by (induction db) (auto simp: Map_has_def)

lemma delete_file_absent:
  "Map_get db i = None \<Longrightarrow>
     status (fst (delete_file i res db)) = 404
     \<and> response_field ''error'' (fst (delete_file i res db)) = Some (JStr ''FILE_NOT_FOUND'')
     \<and> snd (delete_file i res db) = db"
  by (simp add: delete_file_def Map_delete_def Map_get_None_iff filter_absent res_defs read_defs)

lemma delete_file_present:
  "Map_get db i \<noteq> None \<Longrightarrow>
     status (fst (delete_file i (cors res0) db)) = 200
     \<and> response_field ''success'' (fst (delete_file i (cors res0) db)) = Some (JBool True)
     \<and> snd (delete_file i (cors res0) db) = filter (\<lambda>p. fst p \<noteq> i) db"
  by (simp add: delete_file_def Map_delete_def Map_get_None_iff res_defs read_defs)

section \<open>Rejected uploads\<close>


text \<open>
  The error middleware of \<^verbatim>\<open>api/index.js\<close> answers 400 \<open>FILE_TOO_LARGE\<close> to multer's
  \<open>LIMIT_FILE_SIZE\<close> and 500 \<open>INTERNAL_SERVER_ERROR\<close> to every other error.
\<close>

lemma error_middleware_status:
  "status (error_middleware err res) = (if err = MulterError ''LIMIT_FILE_SIZE'' then 400 else 500)"
  "response_field ''error'' (error_middleware err res)
     = Some (JStr (if err = MulterError ''LIMIT_FILE_SIZE''
                   then ''FILE_TOO_LARGE'' else ''INTERNAL_SERVER_ERROR''))"
  by (auto simp: error_middleware_def res_defs read_defs split: error.splits)



section \<open>Unknown ids\<close>

text \<open>
  Claim C5, as stated, fails in two ways. On the second copy the 404 answer carries the
  message \<open>File not found\<close>, not the code \<open>FILE_NOT_FOUND\<close>. And a path segment that
  cannot be decoded, such as \<open>%zz\<close>, names no stored record, yet the router's error is
  answered by the error middleware of \<^verbatim>\<open>api/index.js\<close> with 500
  \<open>INTERNAL_SERVER_ERROR\<close> (by Express with 400 in the second copy).
\<close>

theorem absent_id_counterexample:
  "Map_get ([] :: fileDatabase) ''abc'' = None
   \<and> status (fst (app_alt example_env (GET_file ''abc'') [])) = 404
   \<and> response_field ''error'' (fst (app_alt example_env (GET_file ''abc'') []))
       \<noteq> Some (JStr ''FILE_NOT_FOUND'')
   \<and> status (fst (app example_env (Param_undecodable ''%zz'') [])) = 500
   \<and> response_field ''error'' (fst (app example_env (Param_undecodable ''%zz'') []))
       = Some (JStr ''INTERNAL_SERVER_ERROR'')
   \<and> status (fst (app_alt example_env (Param_undecodable ''%zz'') [])) = 400"
  by (simp add: Map_get_def get_file_alt_def error_middleware_def decode_error_def
      try_defs res_defs read_defs)

text \<open>
  Claim C5, amended. For every id that the router decodes from the path and that is not
  in the store: in \<^verbatim>\<open>api/index.js\<close>, \<open>GET /file/:id\<close>, \<open>GET /info/:id\<close> and
  \<open>DELETE /file/:id\<close> each answer 404 with the code \<open>FILE_NOT_FOUND\<close>, and the delete
  leaves the store as it was; in the second copy \<open>GET /file/:id\<close> and \<open>GET /info/:id\<close>
  answer 404 with the message \<open>File not found\<close>, and \<open>DELETE\<close>, which has no route
  there, is answered 404 by Express. None of these answers is a 5xx. (A request that a
  body parser or the router refuses before a handler runs is not one of them.)
\<close>

theorem absent_id_not_found:
  "Map_get db i = None \<longrightarrow>
     (status (fst (app e (GET_file i) db)) = 404
      \<and> response_field ''error'' (fst (app e (GET_file i) db)) = Some (JStr ''FILE_NOT_FOUND''))
   \<and> (status (fst (app e (GET_info i) db)) = 404
      \<and> response_field ''error'' (fst (app e (GET_info i) db)) = Some (JStr ''FILE_NOT_FOUND''))
   \<and> (status (fst (app e (DELETE_file i) db)) = 404
      \<and> response_field ''error'' (fst (app e (DELETE_file i) db)) = Some (JStr ''FILE_NOT_FOUND'')
      \<and> snd (app e (DELETE_file i) db) = db)
   \<and> (status (fst (app_alt e (GET_file i) db)) = 404
      \<and> response_field ''error'' (fst (app_alt e (GET_file i) db)) = Some (JStr ''File not found''))
   \<and> (status (fst (app_alt e (GET_info i) db)) = 404
      \<and> response_field ''error'' (fst (app_alt e (GET_info i) db)) = Some (JStr ''File not found''))
   \<and> status (fst (app_alt e (DELETE_file i) db)) = 404"
  by (simp add: delete_file_absent)
    (simp add: get_file_def get_info_def get_file_alt_def get_info_alt_def try_defs
      res_defs read_defs)

theorem absent_id_not_found_witness:
  "Map_get example_db ''abc'' = None
   \<and> status (fst (app example_env (GET_file ''abc'') example_db)) = 404
   \<and> status (fst (app example_env (GET_info ''abc'') example_db)) = 404
   \<and> status (fst (app example_env (DELETE_file ''abc'') example_db)) = 404
   \<and> snd (app example_env (DELETE_file ''abc'') example_db) = example_db
   \<and> Map_get example_db_alt ''abc'' = None
   \<and> status (fst (app_alt example_env (GET_file ''abc'') example_db_alt)) = 404
   \<and> response_field ''error'' (fst (app_alt example_env (GET_info ''abc'') example_db_alt))
       = Some (JStr ''File not found'')"
proof -
  have "Map_get example_db ''abc'' = None" "Map_get example_db_alt ''abc'' = None"
    by (simp_all add: example_db_eq example_db_alt_eq example_id_def Map_get_def)
  with absent_id_not_found [of example_db "''abc''" example_env]
    absent_id_not_found [of example_db_alt "''abc''" example_env]
  show ?thesis by blast
qed

section \<open>Deleting twice\<close>

text \<open>
  Claim C6. In \<^verbatim>\<open>api/index.js\<close> (the copy that has the route), for every id in the
  store the first \<open>DELETE /file/:id\<close> answers 200 with \<open>success: true\<close> and removes
  the record, and a second one on the resulting store answers 404 \<open>FILE_NOT_FOUND\<close>.
\<close>
theorem delete_twice:
  "Map_get db i \<noteq> None \<longrightarrow>
     status (fst (app e (DELETE_file i) db)) = 200
     \<and> response_field ''success'' (fst (app e (DELETE_file i) db)) = Some (JBool True)
     \<and> Map_get (snd (app e (DELETE_file i) db)) i = None
     \<and> status (fst (app e' (DELETE_file i) (snd (app e (DELETE_file i) db)))) = 404
     \<and> response_field ''error'' (fst (app e' (DELETE_file i) (snd (app e (DELETE_file i) db))))
         = Some (JStr ''FILE_NOT_FOUND'')"
proof
  assume present: "Map_get db i \<noteq> None"
  let ?db1 = "snd (app e (DELETE_file i) db)"
  from delete_file_present [OF present] have first:
    "status (fst (app e (DELETE_file i) db)) = 200"
    "response_field ''success'' (fst (app e (DELETE_file i) db)) = Some (JBool True)"
    "?db1 = filter (\<lambda>p. fst p \<noteq> i) db"
    by simp_all
  then have gone: "Map_get ?db1 i = None" by (simp only: Map_get_filter_self)
  from delete_file_absent [OF gone, of "cors res0"] have
    "status (fst (app e' (DELETE_file i) ?db1)) = 404"
    "response_field ''error'' (fst (app e' (DELETE_file i) ?db1)) = Some (JStr ''FILE_NOT_FOUND'')"
    by simp_all
  with first gone show
    "status (fst (app e (DELETE_file i) db)) = 200
     \<and> response_field ''success'' (fst (app e (DELETE_file i) db)) = Some (JBool True)
     \<and> Map_get ?db1 i = None
     \<and> status (fst (app e' (DELETE_file i) ?db1)) = 404
     \<and> response_field ''error'' (fst (app e' (DELETE_file i) ?db1)) = Some (JStr ''FILE_NOT_FOUND'')"
    by simp
qed

theorem delete_twice_witness:
  "Map_get example_db example_id \<noteq> None
   \<and> status (fst (app example_env (DELETE_file example_id) example_db)) = 200
   \<and> snd (app example_env (DELETE_file example_id) example_db) = []
   \<and> status (fst (app example_env (DELETE_file example_id)
                (snd (app example_env (DELETE_file example_id) example_db)))) = 404"
proof -
  have present: "Map_get example_db example_id \<noteq> None"
    by (simp add: example_db_eq Map_get_def)
  have "snd (app example_env (DELETE_file example_id) example_db) = []"
    by (simp add: example_db_eq delete_file_def Map_delete_def Map_has_def)
  with present delete_twice [of example_db example_id example_env example_env]
  show ?thesis by simp
qed

section \<open>Uploads without a file\<close>

text \<open>
  Claim C7, as stated, fails in three ways. On the second copy the 400 answer carries
  the message \<open>No file uploaded\<close>, not the code \<open>NO_FILE\<close>. A request whose only file
  is sent in another field (\<open>avatar\<close>) has no field \<open>file\<close>, and multer refuses it with
  \<open>LIMIT_UNEXPECTED_FILE\<close>, which \<^verbatim>\<open>api/index.js\<close> answers with 500
  \<open>INTERNAL_SERVER_ERROR\<close>. And an upload request without any file whose body a parser
  refuses (malformed JSON, multipart without a boundary) is answered there with 500 as
  well.
\<close>

theorem no_file_counterexample:
  "req_parts empty_req = []
   \<and> status (fst (app_alt example_env (POST_upload empty_req) [])) = 400
   \<and> response_field ''error'' (fst (app_alt example_env (POST_upload empty_req) []))
       \<noteq> Some (JStr ''NO_FILE'')
   \<and> list_all (\<lambda>p. part_fieldname p \<noteq> ''file'') (req_parts avatar_req)
   \<and> status (fst (app example_env (POST_upload avatar_req) [])) = 500
   \<and> response_field ''error'' (fst (app example_env (POST_upload avatar_req) []))
       = Some (JStr ''INTERNAL_SERVER_ERROR'')
   \<and> status (fst (app example_env
         (Body_refused (HttpError 400 ''Unexpected end of JSON input'')) [])) = 500
   \<and> status (fst (app example_env
         (POST_upload_refused (Error ''Multipart: Boundary not found'')) [])) = 500"
  by (simp add: empty_req_def avatar_req_def example_part_def post_upload_alt_def
      error_middleware_def res_defs read_defs)

text \<open>
  Claim C7, amended. An upload request whose body the parsers accept and which carries
  no file part at all is answered with 400, with the code \<open>NO_FILE\<close> in
  \<^verbatim>\<open>api/index.js\<close> and the message \<open>No file uploaded\<close> in the second copy, and the store
  is left as it was, so a following \<open>GET /files\<close> answers exactly as it would have
  before. Every other upload request without a part in the field \<open>file\<close> (a file under
  another field name, a body a parser refuses) leaves the store as it was, too.
\<close>

theorem no_file_rejected:
  "(req_parts rq = [] \<longrightarrow>
     status (fst (app e (POST_upload rq) db)) = 400
     \<and> response_field ''error'' (fst (app e (POST_upload rq) db)) = Some (JStr ''NO_FILE'')
     \<and> snd (app e (POST_upload rq) db) = db
     \<and> fst (app e' GET_files (snd (app e (POST_upload rq) db))) = fst (app e' GET_files db)
     \<and> status (fst (app_alt e (POST_upload rq) db)) = 400
     \<and> response_field ''error'' (fst (app_alt e (POST_upload rq) db)) = Some (JStr ''No file uploaded'')
     \<and> snd (app_alt e (POST_upload rq) db) = db
     \<and> fst (app_alt e' GET_files (snd (app_alt e (POST_upload rq) db))) = fst (app_alt e' GET_files db))
   \<and> (list_all (\<lambda>p. part_fieldname p \<noteq> ''file'') (req_parts rq) \<longrightarrow>
     snd (app e (POST_upload rq) db) = db \<and> snd (app_alt e (POST_upload rq) db) = db)
   \<and> snd (app e (Body_refused err) db) = db
   \<and> snd (app e (POST_upload_refused err) db) = db
   \<and> snd (app_alt e (Body_refused err) db) = db
   \<and> snd (app_alt e (POST_upload_refused err) db) = db"
proof -
  have other_field: "snd (app e (POST_upload rq) db) = db \<and> snd (app_alt e (POST_upload rq) db) = db"
    if "list_all (\<lambda>p. part_fieldname p \<noteq> ''file'') (req_parts rq)"
    using that by (cases "req_parts rq") (simp_all add: post_upload_def post_upload_alt_def)
  then show ?thesis
    by (simp add: post_upload_def post_upload_alt_def res_defs read_defs)
qed

theorem no_file_rejected_witness:
  "req_parts empty_req = []
   \<and> status (fst (app example_env (POST_upload empty_req) example_db)) = 400
   \<and> response_field ''error'' (fst (app example_env (POST_upload empty_req) example_db))
       = Some (JStr ''NO_FILE'')
   \<and> snd (app example_env (POST_upload empty_req) example_db) = example_db
   \<and> response_field ''count'' (fst (app example_env GET_files
         (snd (app example_env (POST_upload empty_req) example_db)))) = Some (JNum 1)
   \<and> response_field ''count'' (fst (app example_env GET_files example_db)) = Some (JNum 1)
   \<and> status (fst (app_alt example_env (POST_upload empty_req) example_db_alt)) = 400
   \<and> snd (app_alt example_env (POST_upload empty_req) example_db_alt) = example_db_alt
   \<and> list_all (\<lambda>p. part_fieldname p \<noteq> ''file'') (req_parts avatar_req)
   \<and> snd (app example_env (POST_upload avatar_req) example_db) = example_db"
proof -
  have none: "req_parts empty_req = []" by (simp add: empty_req_def)
  have other: "list_all (\<lambda>p. part_fieldname p \<noteq> ''file'') (req_parts avatar_req)"
    by (simp add: avatar_req_def example_part_def)
  have "response_field ''count'' (fst (app example_env GET_files example_db)) = Some (JNum 1)"
    by (simp add: example_db_eq get_files_def Map_values_def res_defs read_defs)
  with none other
    no_file_rejected [of empty_req example_env example_db example_env]
    no_file_rejected [of empty_req example_env example_db_alt example_env]
    no_file_rejected [of avatar_req example_env example_db]
  show ?thesis by simp
qed

section \<open>Size and payload\<close>

lemma set_Map_set: "set (Map_set k v m) \<subseteq> insert (k, v) (set m)"
  by (induction m) auto

lemma size_matches_Map_set:
  "size_matches db \<Longrightarrow> info_size fi = length (info_buffer fi) \<Longrightarrow> size_matches (Map_set k fi db)"
  using set_Map_set [of k fi db] by (auto simp: size_matches_def)

lemma size_matches_filter: "size_matches db \<Longrightarrow> size_matches (filter P db)"
  by (simp add: size_matches_def)

lemma app_step_size:
  assumes "size_matches db" shows "size_matches (snd (app e rq db))"
proof (cases rq)
  case (POST_upload q)
  show ?thesis
  proof (cases "upload_single (multer_refuses_at_limit e) maxFileSize (req_parts q)")
    case (Inl err)
    with POST_upload assms show ?thesis by simp
  next
    case (Inr rf)
    show ?thesis
    proof (cases rf)
      case None
      with Inr POST_upload assms show ?thesis by (simp add: post_upload_def)
    next
      case (Some f)
      with Inr upload_single_Some have "file_size f = length (file_buffer f)" by fastforce
      then have "info_size (make_fileInfo e q f) = length (info_buffer (make_fileInfo e q f))"
        by (simp add: make_fileInfo_def Let_def)
      with assms Some Inr POST_upload show ?thesis
        by (simp add: post_upload_def Let_def size_matches_Map_set)
    qed
  qed
next
  case (DELETE_file i)
  with assms show ?thesis
    by (simp add: delete_file_def Map_delete_def size_matches_filter)
qed (use assms in simp_all)

lemma app_alt_step_size:
  assumes "size_matches db" shows "size_matches (snd (app_alt e rq db))"
proof (cases rq)
  case (POST_upload q)
  show ?thesis
  proof (cases "upload_single (multer_refuses_at_limit e) maxFileSize_alt (req_parts q)")
    case (Inl err)
    with POST_upload assms show ?thesis by simp
  next
    case (Inr rf)
    show ?thesis
    proof (cases rf)
      case None
      with Inr POST_upload assms show ?thesis by (simp add: post_upload_alt_def)
    next
      case (Some f)
      with Inr upload_single_Some have "file_size f = length (file_buffer f)" by fastforce
      then have "info_size (make_fileInfo_alt e q f) = length (info_buffer (make_fileInfo_alt e q f))"
        by (simp add: make_fileInfo_alt_def Let_def)
      with assms Some Inr POST_upload show ?thesis
        by (simp add: post_upload_alt_def Let_def size_matches_Map_set)
    qed
  qed
qed (use assms in simp_all)

lemma run_size:
  "size_matches db \<Longrightarrow> size_matches (run app evs db) \<and> size_matches (run app_alt evs db)"
proof (induction evs arbitrary: db)
  case Nil
  then show ?case by simp
next
  case (Cons ev evs)
  from Cons.prems have "size_matches (snd (app (fst ev) (snd ev) db))"
    "size_matches (snd (app_alt (fst ev) (snd ev) db))"
    by (simp_all add: app_step_size app_alt_step_size)
  with Cons.IH show ?case by simp
qed

text \<open>
  Claim C8. The empty store satisfies the invariant "every record's \<open>size\<close> equals the
  length of its \<open>buffer\<close>"; every request, in both copies of the server, preserves it;
  hence it holds after any sequence of requests from a cold start.
\<close>

theorem size_equals_buffer_length:
  "size_matches []
   \<and> (size_matches db \<longrightarrow> size_matches (snd (app e rq db)) \<and> size_matches (snd (app_alt e rq db)))
   \<and> size_matches (run app evs []) \<and> size_matches (run app_alt evs [])"
proof -
  have "size_matches []" by (simp add: size_matches_def)
  with run_size [of "[]" evs] show ?thesis
    by (simp add: app_step_size app_alt_step_size)
qed

theorem size_equals_buffer_length_witness:
  "size_matches example_db
   \<and> size_matches (snd (app example_env (POST_upload example_req) example_db))
   \<and> size_matches (snd (app_alt example_env (POST_upload example_req) example_db))
   \<and> run app [(example_env, POST_upload example_req)] [] = example_db
   \<and> size_matches (run app [(example_env, POST_upload example_req)] [])"
proof -
  have "size_matches example_db" by (simp add: example_db_eq size_matches_def)
  moreover have "run app [(example_env, POST_upload example_req)] [] = example_db"
    by (simp add: example_db_def)
  ultimately show ?thesis
    using size_equals_buffer_length [of example_db example_env "POST_upload example_req"
        "[(example_env, POST_upload example_req)]"]
    by simp
qed

section \<open>Identifiers\<close>

lemma length_randomBytes: "length (randomBytes e n) = n"
  by (simp add: randomBytes_def)

lemma length_toString_hex: "length (toString_hex bs) = 2 * length bs"
  by (induction bs) (simp_all add: toString_hex_def hex_byte_def)

lemma hex_digit_range: "n < 16 \<Longrightarrow> hex_digit n \<in> set ''0123456789abcdef''"
  unfolding hex_digit_def by (rule nth_mem) simp

lemma set_hex_byte: "set (hex_byte b) \<subseteq> set ''0123456789abcdef''"
proof -
  have "unat b < 256" using unsigned_less [of b] by simp
  then have "unat b div 16 < 16" "unat b mod 16 < 16" by simp_all
  then show ?thesis
    using hex_digit_range by (simp add: hex_byte_def)
qed

lemma set_toString_hex: "set (toString_hex bs) \<subseteq> set ''0123456789abcdef''"
proof (induction bs)
  case Nil
  show ?case by (simp add: toString_hex_def)
next
  case (Cons b bs)
  have "set (toString_hex (b # bs)) = set (hex_byte b) \<union> set (toString_hex bs)"
    by (simp add: toString_hex_def)
  with Cons set_hex_byte [of b] show ?case by blast
qed

lemma hex_digit_inj: "n < 16 \<Longrightarrow> m < 16 \<Longrightarrow> hex_digit n = hex_digit m \<Longrightarrow> n = m"
  unfolding hex_digit_def
  by (auto simp: less_Suc_eq numeral_eq_Suc nth_Cons split: nat.splits)

lemma hex_byte_inj: assumes "hex_byte a = hex_byte b" shows "a = b"
proof -
  have lt: "unat a < 256" "unat b < 256"
    using unsigned_less [of a] unsigned_less [of b] by simp_all
  then have "unat a div 16 < 16" "unat b div 16 < 16" "unat a mod 16 < 16" "unat b mod 16 < 16"
    by simp_all
  with assms hex_digit_inj have "unat a div 16 = unat b div 16" "unat a mod 16 = unat b mod 16"
    by (simp_all add: hex_byte_def)
  then have "unat a = unat b"
    by (metis div_mult_mod_eq)
  then show ?thesis by (simp only: word_unat_eq_iff)
qed

lemma toString_hex_inj: "toString_hex a = toString_hex b \<Longrightarrow> a = b"
proof (induction a arbitrary: b)
  case Nil
  then show ?case by (cases b) (simp_all add: toString_hex_def hex_byte_def)
next
  case (Cons x xs)
  show ?case
  proof (cases b)
    case Nil
    with Cons.prems show ?thesis by (simp add: toString_hex_def hex_byte_def)
  next
    case (Cons y ys)
    with Cons.prems have "hex_byte x @ toString_hex xs = hex_byte y @ toString_hex ys"
      by (simp add: toString_hex_def)
    moreover have "length (hex_byte x) = length (hex_byte y)" by (simp add: hex_byte_def)
    ultimately have "hex_byte x = hex_byte y" "toString_hex xs = toString_hex ys" by simp_all
    with Cons.IH hex_byte_inj Cons show ?thesis by blast
  qed
qed

lemma upload_id_is_hex:
  "response_id (fst (app e (POST_upload rq) db)) = Some i \<Longrightarrow> i = toString_hex (randomBytes e 16)"
  "response_id (fst (app_alt e (POST_upload rq) db)) = Some i \<Longrightarrow> i = toString_hex (randomBytes e 16)"
  using app_upload_id [of e rq db "fst (app e (POST_upload rq) db)" "snd (app e (POST_upload rq) db)" i]
    app_alt_upload_id [of e rq db "fst (app_alt e (POST_upload rq) db)"
      "snd (app_alt e (POST_upload rq) db)" i]
  by (auto simp: make_fileInfo_def make_fileInfo_alt_def Let_def simp del: app.simps app_alt.simps)

lemma upload_accepted:
  assumes "req_parts rq = [p]" and "part_fieldname p = ''file''"
  shows "length (part_content p) < maxFileSize \<Longrightarrow>
           status (fst (app e (POST_upload rq) db)) = 200
           \<and> response_id (fst (app e (POST_upload rq) db)) = Some (toString_hex (randomBytes e 16))"
    and "length (part_content p) < maxFileSize_alt \<Longrightarrow>
           status (fst (app_alt e (POST_upload rq) db)) = 200
           \<and> response_id (fst (app_alt e (POST_upload rq) db))
               = Some (toString_hex (randomBytes e 16))"
  using assms
  by (simp_all add: maxFileSize_def maxFileSize_alt_def post_upload_def post_upload_alt_def
      make_fileInfo_def make_fileInfo_alt_def Let_def res_defs read_defs fileInfo_props_def)

lemma other_random_bytes:
  "randomBytes other_env 16
     = [0xff, 0xee, 0xdd, 0xcc, 0xbb, 0xaa, 0x99, 0x88,
        0x77, 0x66, 0x55, 0x44, 0x33, 0x22, 0x11, 0x00]"
  by (simp add: randomBytes_def other_env_def upt_16)

lemma other_random_hex: "toString_hex (randomBytes other_env 16) = other_id"
  by (simp add: other_random_bytes other_id_def toString_hex_def hex_byte_def hex_digit_def)

lemma other_upload_id:
  "response_id (fst (app other_env (POST_upload example_req) [])) = Some other_id"
  by (simp add: example_upload_single post_upload_def make_fileInfo_def other_random_hex Let_def
      res_defs read_defs)

lemma other_upload_id_alt:
  "response_id (fst (app_alt other_env (POST_upload example_req) [])) = Some other_id"
  by (simp add: example_upload_single post_upload_alt_def make_fileInfo_alt_def other_random_hex
      Let_def res_defs read_defs fileInfo_props_def)

text \<open>
  Claim C9. In both copies, an upload of one named file in the field \<open>file\<close>, shorter
  than the copy's limit, is answered 200 with an id, and the id an upload returns is the
  hexadecimal print of the 16 bytes that \<open>crypto.randomBytes(16)\<close> yields for that
  request: 32 characters, each a lower-case hexadecimal digit. The same request served
  with different random bytes returns a different id, and any two uploads served with the
  same random bytes return the same id, whatever the request and the store: the id
  depends on nothing the client sends.
\<close>

theorem upload_id_from_randomness:
  "(req_parts rq = [p] \<and> part_fieldname p = ''file'' \<and> part_filename p \<noteq> []
      \<and> length (part_content p) < maxFileSize \<longrightarrow>
      status (fst (app e (POST_upload rq) db)) = 200
      \<and> response_id (fst (app e (POST_upload rq) db)) = Some (toString_hex (randomBytes e 16)))
   \<and> (req_parts rq = [p] \<and> part_fieldname p = ''file'' \<and> part_filename p \<noteq> []
      \<and> length (part_content p) < maxFileSize_alt \<longrightarrow>
      status (fst (app_alt e (POST_upload rq) db)) = 200
      \<and> response_id (fst (app_alt e (POST_upload rq) db)) = Some (toString_hex (randomBytes e 16)))
   \<and> ((step = app \<or> step = app_alt) \<and> response_id (fst (step e (POST_upload rq) db)) = Some i \<longrightarrow>
     i = toString_hex (randomBytes e 16)
     \<and> length (randomBytes e 16) = 16
     \<and> length i = 32
     \<and> set i \<subseteq> set ''0123456789abcdef''
     \<and> (\<forall>e' i'. response_id (fst (step e' (POST_upload rq) db)) = Some i'
                  \<and> randomBytes e' 16 \<noteq> randomBytes e 16 \<longrightarrow> i' \<noteq> i)
     \<and> (\<forall>e' rq' db' i'. response_id (fst (step e' (POST_upload rq') db')) = Some i'
                  \<and> randomBytes e' 16 = randomBytes e 16 \<longrightarrow> i' = i))"
proof (intro conjI impI; (elim conjE)?)
  assume "req_parts rq = [p]" "part_fieldname p = ''file''" "length (part_content p) < maxFileSize"
  then show "status (fst (app e (POST_upload rq) db)) = 200"
    "response_id (fst (app e (POST_upload rq) db)) = Some (toString_hex (randomBytes e 16))"
    using upload_accepted(1) [of rq p e db] by simp_all
next
  assume "req_parts rq = [p]" "part_fieldname p = ''file''" "length (part_content p) < maxFileSize_alt"
  then show "status (fst (app_alt e (POST_upload rq) db)) = 200"
    "response_id (fst (app_alt e (POST_upload rq) db)) = Some (toString_hex (randomBytes e 16))"
    using upload_accepted(2) [of rq p e db] by simp_all
next
  assume step: "step = app \<or> step = app_alt"
    and up: "response_id (fst (step e (POST_upload rq) db)) = Some i"
  from step up show i: "i = toString_hex (randomBytes e 16)"
    using upload_id_is_hex by blast
  have other: "i' = toString_hex (randomBytes e' 16)"
    if "response_id (fst (step e' (POST_upload q) d)) = Some i'" for e' q d i'
    using that step upload_id_is_hex by blast
  show "length (randomBytes e 16) = 16" by (rule length_randomBytes)
  show "length i = 32"
    by (simp add: i length_toString_hex length_randomBytes)
  show "set i \<subseteq> set ''0123456789abcdef''"
    by (simp only: i set_toString_hex)
  show "\<forall>e' i'. response_id (fst (step e' (POST_upload rq) db)) = Some i'
                  \<and> randomBytes e' 16 \<noteq> randomBytes e 16 \<longrightarrow> i' \<noteq> i"
  proof (intro allI impI, elim conjE)
    fix e' i'
    assume u: "response_id (fst (step e' (POST_upload rq) db)) = Some i'"
      and ne: "randomBytes e' 16 \<noteq> randomBytes e 16"
    from u have "i' = toString_hex (randomBytes e' 16)" by (rule other)
    with i ne toString_hex_inj [of "randomBytes e' 16" "randomBytes e 16"]
    show "i' \<noteq> i" by auto
  qed
  show "\<forall>e' rq' db' i'. response_id (fst (step e' (POST_upload rq') db')) = Some i'
                  \<and> randomBytes e' 16 = randomBytes e 16 \<longrightarrow> i' = i"
  proof (intro allI impI, elim conjE)
    fix e' rq' db' i'
    assume u: "response_id (fst (step e' (POST_upload rq') db')) = Some i'"
      and eq: "randomBytes e' 16 = randomBytes e 16"
    from u have "i' = toString_hex (randomBytes e' 16)" by (rule other)
    with i eq show "i' = i" by simp
  qed
qed

theorem upload_id_from_randomness_witness:
  "req_parts example_req = [example_part] \<and> part_fieldname example_part = ''file''
   \<and> part_filename example_part \<noteq> [] \<and> length (part_content example_part) < maxFileSize
   \<and> length (part_content example_part) < maxFileSize_alt
   \<and> status (fst (app example_env (POST_upload example_req) [])) = 200
   \<and> response_id (fst (app example_env (POST_upload example_req) [])) = Some example_id
   \<and> status (fst (app_alt example_env (POST_upload example_req) [])) = 200
   \<and> response_id (fst (app_alt example_env (POST_upload example_req) [])) = Some example_id
   \<and> example_id = toString_hex (randomBytes example_env 16)
   \<and> length example_id = 32
   \<and> set example_id \<subseteq> set ''0123456789abcdef''
   \<and> response_id (fst (app other_env (POST_upload example_req) [])) = Some other_id
   \<and> response_id (fst (app_alt other_env (POST_upload example_req) [])) = Some other_id
   \<and> randomBytes other_env 16 \<noteq> randomBytes example_env 16
   \<and> other_id \<noteq> example_id"
proof -
  have hyp: "req_parts example_req = [example_part]" "part_fieldname example_part = ''file''"
    "part_filename example_part \<noteq> []" "length (part_content example_part) < maxFileSize"
    "length (part_content example_part) < maxFileSize_alt"
    by (simp_all add: example_req_def example_part_def maxFileSize_def maxFileSize_alt_def)
  have differ: "randomBytes other_env 16 \<noteq> randomBytes example_env 16"
    by (simp add: other_random_bytes example_random_bytes)
  note main = upload_id_from_randomness
      [of example_req example_part example_env "[]" app example_id]
  note main_alt = upload_id_from_randomness
      [of example_req example_part example_env "[]" app_alt example_id]
  from hyp main have ok: "status (fst (app example_env (POST_upload example_req) [])) = 200"
    "response_id (fst (app example_env (POST_upload example_req) []))
       = Some (toString_hex (randomBytes example_env 16))"
    by blast+
  from hyp main_alt have ok_alt: "status (fst (app_alt example_env (POST_upload example_req) [])) = 200"
    "response_id (fst (app_alt example_env (POST_upload example_req) []))
       = Some (toString_hex (randomBytes example_env 16))"
    by blast+
  have up: "response_id (fst (app example_env (POST_upload example_req) [])) = Some example_id"
    "response_id (fst (app_alt example_env (POST_upload example_req) [])) = Some example_id"
    using ok(2) ok_alt(2) by (simp_all only: example_random_hex)
  from up(1) main have props: "example_id = toString_hex (randomBytes example_env 16)"
    "length example_id = 32" "set example_id \<subseteq> set ''0123456789abcdef''"
    "\<forall>e' i'. response_id (fst (app e' (POST_upload example_req) [])) = Some i'
                  \<and> randomBytes e' 16 \<noteq> randomBytes example_env 16 \<longrightarrow> i' \<noteq> example_id"
    by blast+
  from up(2) main_alt have props_alt:
    "\<forall>e' i'. response_id (fst (app_alt e' (POST_upload example_req) [])) = Some i'
                  \<and> randomBytes e' 16 \<noteq> randomBytes example_env 16 \<longrightarrow> i' \<noteq> example_id"
    by blast
  from props(4) differ other_upload_id have "other_id \<noteq> example_id" by blast
  with hyp ok(1) ok_alt(1) up props(1-3) differ other_upload_id other_upload_id_alt
  show ?thesis by (simp del: app.simps app_alt.simps)
qed

section \<open>The order of the listing\<close>

lemma map_fst_Map_set_fresh: "\<not> Map_has m k \<Longrightarrow> map fst (Map_set k v m) = map fst m @ [k]"
  by (induction m) (auto simp: Map_has_def)

lemma map_fst_filter: "map fst (filter (\<lambda>p. fst p \<noteq> k) m) = filter (\<lambda>j. j \<noteq> k) (map fst m)"
  by (induction m) auto

lemma filter_fresh: "\<not> Map_has m k \<Longrightarrow> filter (\<lambda>j. j \<noteq> k) (map fst m) = map fst m"
  by (induction m) (auto simp: Map_has_def)

lemma keys_of_run:
  assumes U1: "\<And>e q db i. response_id (fst (step e (POST_upload q) db)) = Some i
                 \<Longrightarrow> \<exists>fi. snd (step e (POST_upload q) db) = Map_set i fi db"
    and U2: "\<And>e q db. response_id (fst (step e (POST_upload q) db)) = None
                 \<Longrightarrow> snd (step e (POST_upload q) db) = db"
    and D: "\<And>e i db. snd (step e (DELETE_file i) db)
                 = (if status (fst (step e (DELETE_file i) db)) = 200
                    then filter (\<lambda>p. fst p \<noteq> i) db else db)"
    and O: "\<And>e i db. snd (step e (GET_file i) db) = db"
           "\<And>e i db. snd (step e (GET_info i) db) = db"
           "\<And>e db. snd (step e GET_files db) = db"
           "\<And>e db. snd (step e GET_health db) = db"
           "\<And>e db. snd (step e GET_api db) = db"
           "\<And>e db. snd (step e Unmatched db) = db"
           "\<And>e err db. snd (step e (Body_refused err) db) = db"
           "\<And>e raw db. snd (step e (Param_undecodable raw) db) = db"
           "\<And>e err db. snd (step e (POST_upload_refused err) db) = db"
  shows "fresh_ids step evs db
           \<Longrightarrow> map fst (run step evs db) = surviving_ids (observe step evs db) (map fst db)"
proof (induction evs arbitrary: db)
  case Nil
  show ?case by simp
next
  case (Cons ev evs)
  obtain e rq where ev: "ev = (e, rq)" by (cases ev)
  let ?db' = "snd (step e rq db)"
  let ?r = "fst (step e rq db)"
  from Cons.prems ev have fresh': "fresh_ids step evs ?db'" by simp
  have IH: "map fst (run step evs ?db') = surviving_ids (observe step evs ?db') (map fst ?db')"
    by (rule Cons.IH [OF fresh'])
  have head: "surviving_ids ((rq, ?r) # t) (map fst db) = surviving_ids t (map fst ?db')" for t
  proof (cases rq)
    case (POST_upload q)
    show ?thesis
    proof (cases "response_id ?r")
      case None
      with POST_upload U2 [of e q db] show ?thesis by simp
    next
      case (Some i)
      with POST_upload U1 [of e q db i] obtain fi where db': "?db' = Map_set i fi db" by auto
      from Cons.prems ev POST_upload Some have "\<not> Map_has db i" by simp
      then have "map fst ?db' = filter (\<lambda>j. j \<noteq> i) (map fst db) @ [i]"
        by (simp add: db' map_fst_Map_set_fresh filter_fresh)
      with POST_upload Some show ?thesis by simp
    qed
  next
    case (DELETE_file i)
    with D [of e i db] show ?thesis by (simp add: map_fst_filter)
  qed (simp_all add: O)
  from ev IH head show ?case by simp
qed

lemma app_upload_None:
  "response_id (fst (app e (POST_upload q) db)) = None \<Longrightarrow> snd (app e (POST_upload q) db) = db"
  by (auto simp: post_upload_def Let_def res_defs read_defs split: sum.splits option.splits if_splits)

lemma app_alt_upload_None:
  "response_id (fst (app_alt e (POST_upload q) db)) = None \<Longrightarrow> snd (app_alt e (POST_upload q) db) = db"
  by (auto simp: post_upload_alt_def Let_def res_defs read_defs fileInfo_props_def
      split: sum.splits option.splits if_splits)

lemma app_delete_store:
  "snd (app e (DELETE_file i) db)
     = (if status (fst (app e (DELETE_file i) db)) = 200 then filter (\<lambda>p. fst p \<noteq> i) db else db)"
  by (simp add: delete_file_def Map_delete_def filter_absent res_defs)

lemma keys_of_run_app:
  "fresh_ids app evs db
     \<Longrightarrow> map fst (run app evs db) = surviving_ids (observe app evs db) (map fst db)"
proof (rule keys_of_run)
  fix e q db i
  assume "response_id (fst (app e (POST_upload q) db)) = Some i"
  with app_upload_id [of e q db "fst (app e (POST_upload q) db)" "snd (app e (POST_upload q) db)" i]
  show "\<exists>fi. snd (app e (POST_upload q) db) = Map_set i fi db"
    by (auto simp del: app.simps)
qed (simp_all add: app_upload_None app_delete_store del: app.simps(1,5))

lemma keys_of_run_app_alt:
  "fresh_ids app_alt evs db
     \<Longrightarrow> map fst (run app_alt evs db) = surviving_ids (observe app_alt evs db) (map fst db)"
proof (rule keys_of_run)
  fix e q db i
  assume "response_id (fst (app_alt e (POST_upload q) db)) = Some i"
  with app_alt_upload_id [of e q db "fst (app_alt e (POST_upload q) db)"
      "snd (app_alt e (POST_upload q) db)" i]
  show "\<exists>fi. snd (app_alt e (POST_upload q) db) = Map_set i fi db"
    by (auto simp del: app_alt.simps)
qed (simp_all add: app_alt_upload_None res_defs del: app_alt.simps(1))

lemma keys_Map_set: "keys_are_ids db \<Longrightarrow> info_id fi = k \<Longrightarrow> keys_are_ids (Map_set k fi db)"
  using set_Map_set [of k fi db] by (auto simp: keys_are_ids_def)

lemma app_step_keys:
  assumes "keys_are_ids db" shows "keys_are_ids (snd (app e rq db))"
proof (cases rq)
  case (POST_upload q)
  show ?thesis
  proof (cases "response_id (fst (app e (POST_upload q) db))")
    case None
    with assms POST_upload show ?thesis by (simp only: app_upload_None)
  next
    case (Some i)
    with app_upload_id [of e q db "fst (app e (POST_upload q) db)" "snd (app e (POST_upload q) db)" i]
    obtain f where "i = info_id (make_fileInfo e q f)"
      "snd (app e (POST_upload q) db) = Map_set i (make_fileInfo e q f) db"
      by (auto simp del: app.simps)
    with assms POST_upload show ?thesis by (simp add: keys_Map_set del: app.simps)
  qed
next
  case (DELETE_file i)
  with assms show ?thesis
    by (simp add: delete_file_def Map_delete_def keys_are_ids_def)
qed (use assms in simp_all)

lemma app_alt_step_keys:
  assumes "keys_are_ids db" shows "keys_are_ids (snd (app_alt e rq db))"
proof (cases rq)
  case (POST_upload q)
  show ?thesis
  proof (cases "response_id (fst (app_alt e (POST_upload q) db))")
    case None
    with assms POST_upload show ?thesis by (simp only: app_alt_upload_None)
  next
    case (Some i)
    with app_alt_upload_id [of e q db "fst (app_alt e (POST_upload q) db)"
        "snd (app_alt e (POST_upload q) db)" i]
    obtain f where "i = info_id (make_fileInfo_alt e q f)"
      "snd (app_alt e (POST_upload q) db) = Map_set i (make_fileInfo_alt e q f) db"
      by (auto simp del: app_alt.simps)
    with assms POST_upload show ?thesis by (simp add: keys_Map_set del: app_alt.simps)
  qed
qed (use assms in simp_all)

lemma run_keys:
  "keys_are_ids db \<Longrightarrow> keys_are_ids (run app evs db) \<and> keys_are_ids (run app_alt evs db)"
proof (induction evs arbitrary: db)
  case Nil
  then show ?case by simp
next
  case (Cons ev evs)
  from Cons.prems have "keys_are_ids (snd (app (fst ev) (snd ev) db))"
    "keys_are_ids (snd (app_alt (fst ev) (snd ev) db))"
    by (simp_all add: app_step_keys app_alt_step_keys)
  with Cons.IH show ?case by simp
qed

lemma summary_id:
  "json_field ''id'' (JObj (rest_without ''buffer'' (fileInfo_props fi))) = Some (JStr (info_id fi))"
  by (simp add: json_field_def rest_without_def fileInfo_props_def)

lemma get_files_data:
  "response_field ''data'' (get_files res db)
     = Some (JArr (map (\<lambda>file. JObj (rest_without ''buffer'' (fileInfo_props file))) (Map_values db)))"
  "response_field ''data'' (get_files_alt res db)
     = Some (JArr (map (\<lambda>file. JObj (rest_without ''buffer'' (fileInfo_props file))) (Map_values db)))"
  by (simp_all add: get_files_def get_files_alt_def response_field_def json_field_def res_defs Let_def)

lemma get_files_count:
  "response_field ''count'' (get_files res db) = Some (JNum (length db))"
  by (simp add: get_files_def response_field_def json_field_def res_defs Let_def Map_values_def)

lemma listed_ids_get_files:
  "listed_ids (get_files res db) = map (\<lambda>p. info_id (snd p)) db"
  "listed_ids (get_files_alt res db) = map (\<lambda>p. info_id (snd p)) db"
  by (simp_all add: listed_ids_def get_files_data summary_id Map_values_def comp_def)

lemma keys_are_ids_map: "keys_are_ids db \<Longrightarrow> map (\<lambda>p. info_id (snd p)) db = map fst db"
  by (simp add: keys_are_ids_def)

text \<open>
  Claim C10, amended. In both copies \<open>GET /files\<close> answers with the summaries of exactly
  the records in the store, in the order of the \<open>Map\<close>; and after any sequence of
  requests from a cold start in which no upload returned an id that was in the store at
  that moment, the ids listed are those of the surviving records in the order in which
  they were inserted.
\<close>

theorem listing_in_insertion_order:
  "(step = app \<or> step = app_alt) \<and> fresh_ids step evs [] \<longrightarrow>
     response_field ''data'' (fst (step e GET_files (run step evs [])))
       = Some (JArr (map (\<lambda>file. JObj (rest_without ''buffer'' (fileInfo_props file)))
                         (Map_values (run step evs []))))
     \<and> listed_ids (fst (step e GET_files (run step evs [])))
         = surviving_ids (observe step evs []) []"
proof (intro impI, elim conjE)
  assume step: "step = app \<or> step = app_alt" and fresh: "fresh_ids step evs []"
  have "keys_are_ids []" by (simp add: keys_are_ids_def)
  with run_keys [of "[]" evs] step have "keys_are_ids (run step evs [])" by auto
  then have ids: "map (\<lambda>p. info_id (snd p)) (run step evs []) = map fst (run step evs [])"
    by (rule keys_are_ids_map)
  from step have keys: "map fst (run step evs []) = surviving_ids (observe step evs []) []"
  proof
    assume "step = app"
    with fresh show ?thesis by (simp add: keys_of_run_app)
  next
    assume "step = app_alt"
    with fresh show ?thesis by (simp add: keys_of_run_app_alt)
  qed
  from ids keys have order: "map (\<lambda>p. info_id (snd p)) (run step evs [])
      = surviving_ids (observe step evs []) []"
    by (rule trans)
  from step show "response_field ''data'' (fst (step e GET_files (run step evs [])))
       = Some (JArr (map (\<lambda>file. JObj (rest_without ''buffer'' (fileInfo_props file)))
                         (Map_values (run step evs []))))
     \<and> listed_ids (fst (step e GET_files (run step evs [])))
         = surviving_ids (observe step evs []) []"
    using order by (auto simp: get_files_data listed_ids_get_files)
qed

lemma example_upload:
  "response_id (fst (app e (POST_upload example_req) db)) = Some (toString_hex (randomBytes e 16))"
  "snd (app e (POST_upload example_req) db)
     = Map_set (toString_hex (randomBytes e 16))
         (make_fileInfo e example_req
            \<lparr>file_originalname = ''a.txt'', file_mimetype = ''text/plain'', file_size = 10,
             file_buffer = [1, 2, 3, 4, 5, 6, 7, 8, 9, 10]\<rparr>) db"
  by (simp_all add: example_upload_single post_upload_def make_fileInfo_def Let_def
      res_defs read_defs)

lemma big_upload:
  assumes "n < 20971520"
  shows "response_id (fst (app e (POST_upload (big_req n)) db))
           = Some (toString_hex (randomBytes e 16))"
    and "snd (app e (POST_upload (big_req n)) db)
           = Map_set (toString_hex (randomBytes e 16))
               (make_fileInfo e (big_req n)
                  \<lparr>file_originalname = ''big.bin'', file_mimetype = ''application/octet-stream'',
                   file_size = n, file_buffer = replicate n 0\<rparr>) db"
proof -
  from assms have "upload_single b maxFileSize (req_parts (big_req n))
      = Inr (Some \<lparr>file_originalname = ''big.bin'', file_mimetype = ''application/octet-stream'',
                   file_size = n, file_buffer = replicate n 0\<rparr>)" for b
    by (simp add: big_req_def big_part_def maxFileSize_def)
  with assms show "response_id (fst (app e (POST_upload (big_req n)) db))
           = Some (toString_hex (randomBytes e 16))"
    and "snd (app e (POST_upload (big_req n)) db)
           = Map_set (toString_hex (randomBytes e 16))
               (make_fileInfo e (big_req n)
                  \<lparr>file_originalname = ''big.bin'', file_mimetype = ''application/octet-stream'',
                   file_size = n, file_buffer = replicate n 0\<rparr>) db"
    by (simp_all add: post_upload_def make_fileInfo_def Let_def res_defs read_defs)
qed

lemma ids_differ: "example_id \<noteq> other_id" "other_id \<noteq> example_id"
  by (simp_all add: example_id_def other_id_def)

lemma collision_run:
  "map fst (run app collision_events []) = [example_id, other_id]"
  "map (\<lambda>p. info_size (snd p)) (run app collision_events []) = [3, 2]"
  "map (\<lambda>p. info_id (snd p)) (run app collision_events []) = [example_id, other_id]"
  by (simp_all add: collision_events_def example_upload big_upload example_random_hex
      other_random_hex ids_differ make_fileInfo_def Let_def del: app.simps(1))

lemma collision_observed:
  "surviving_ids (observe app collision_events []) [] = [other_id, example_id]"
  by (simp add: collision_events_def example_upload big_upload example_random_hex
      other_random_hex ids_differ del: app.simps(1))

text \<open>
  Claim C10, as stated, fails when an upload draws an id that is still in the store:
  \<open>Map.set\<close> replaces the value where the key stands. After three uploads of which the
  third draws the id of the first, the listing shows the third record (3 bytes) before
  the second (2 bytes), while the order of insertion of the survivors is second, third.
\<close>

theorem listing_order_collision_counterexample:
  "listed_ids (fst (app example_env GET_files (run app collision_events [])))
     = [example_id, other_id]
   \<and> surviving_ids (observe app collision_events []) [] = [other_id, example_id]
   \<and> listed_ids (fst (app example_env GET_files (run app collision_events [])))
       \<noteq> surviving_ids (observe app collision_events []) []
   \<and> map info_size (Map_values (run app collision_events [])) = [3, 2]"
  using collision_run collision_observed ids_differ
  by (simp add: listed_ids_get_files Map_values_def comp_def)

lemma example_events_fresh: "fresh_ids app example_events []"
  by (simp add: example_events_def example_upload big_upload example_random_hex
      other_random_hex ids_differ Map_has_def delete_file_def Map_delete_def del: app.simps(1))

lemma example_events_observed:
  "surviving_ids (observe app example_events []) [] = [other_id, example_id]"
  by (simp add: example_events_def example_upload big_upload example_random_hex
      other_random_hex ids_differ Map_has_def delete_file_def Map_delete_def res_defs
      del: app.simps(1))

theorem listing_in_insertion_order_witness:
  "fresh_ids app example_events []
   \<and> listed_ids (fst (app example_env GET_files (run app example_events [])))
       = surviving_ids (observe app example_events []) []
   \<and> surviving_ids (observe app example_events []) [] = [other_id, example_id]"
  using listing_in_insertion_order [of app example_events example_env]
    example_events_fresh example_events_observed
  by simp

end
